theory Spec2Isabelle
  imports Complex_Main "HOL-Library.AList" "HOL-Library.Log_Nat"
begin

section \<open>JavaScript values\<close>

text \<open>
  A JavaScript number is NaN, an infinity or a finite value; \<open>Fin a\<close> is the finite
  number whose value is the real \<open>a\<close>. The numbers of a program are the binary64
  values: sum, difference, product, quotient and the conversion of a string round their
  exact result with \<open>roundBinary64\<close> below. The sign of zero is not modelled: \<open>Fin 0\<close>
  is either zero.
\<close>

datatype jsnum = NaN | Fin real | PosInf | NegInf

text \<open>The integer nearest to a real, the even one of the two when it lies halfway.\<close>

definition roundHalfEven :: "real \<Rightarrow> int" where
  "roundHalfEven y =
     (let f = \<lfloor>y\<rfloor>; d = y - of_int f
      in if d < 1 / 2 then f else if 1 / 2 < d then f + 1 else if even f then f else f + 1)"

text \<open>The exponent of the leading bit of a real other than 0.\<close>

definition binaryExponent :: "real \<Rightarrow> int" where
  "binaryExponent x = \<lfloor>log 2 \<bar>x\<bar>\<rfloor>"

text \<open>
  The binary64 value of a real, IEEE 754 round to nearest, ties to even: 53 significant
  bits, the last of them worth \<open>2 powi q\<close> with \<open>q\<close> no less than -1074 (the subnormal
  numbers share that exponent), and an infinity once the rounded value reaches
  \<open>2 ^ 1024\<close>.
\<close>

definition roundBinary64 :: "real \<Rightarrow> jsnum" where
  "roundBinary64 x =
     (if x = 0 then Fin 0
      else
        let q = max (binaryExponent x) (- 1022) - 52;
            r = of_int (roundHalfEven (x / 2 powi q)) * 2 powi q
        in if 2 ^ 1024 \<le> \<bar>r\<bar> then (if 0 < x then PosInf else NegInf) else Fin r)"

definition roundNumber :: "jsnum \<Rightarrow> jsnum" where
  "roundNumber n = (case n of Fin a \<Rightarrow> roundBinary64 a | _ \<Rightarrow> n)"

text \<open>
  The primitive values a property bag or a tool input holds. An absent key reads as
  \<open>VUndefined\<close>, as a property read does in JavaScript; arrays and objects as
  property values are outside the model.
\<close>

datatype jsval = VUndefined | VNull | VBool bool | VNum jsnum | VStr string

datatype jsError = TypeError | RangeError

text \<open>The comparison \<^verbatim>\<open>a < b\<close> of two numbers: false as soon as one is NaN.\<close>

fun numLess :: "jsnum \<Rightarrow> jsnum \<Rightarrow> bool" where
  "numLess NaN b = False"
| "numLess a NaN = False"
| "numLess (Fin a) (Fin b) = (a < b)"
| "numLess (Fin a) PosInf = True"
| "numLess (Fin a) NegInf = False"
| "numLess PosInf b = False"
| "numLess NegInf (Fin b) = True"
| "numLess NegInf PosInf = True"
| "numLess NegInf NegInf = False"

fun numNeg :: "jsnum \<Rightarrow> jsnum" where
  "numNeg NaN = NaN"
| "numNeg (Fin a) = Fin (- a)"
| "numNeg PosInf = NegInf"
| "numNeg NegInf = PosInf"

fun numAdd :: "jsnum \<Rightarrow> jsnum \<Rightarrow> jsnum" where
  "numAdd NaN b = NaN"
| "numAdd a NaN = NaN"
| "numAdd (Fin a) (Fin b) = roundBinary64 (a + b)"
| "numAdd (Fin a) b = b"
| "numAdd PosInf NegInf = NaN"
| "numAdd NegInf PosInf = NaN"
| "numAdd a b = a"

definition numSub :: "jsnum \<Rightarrow> jsnum \<Rightarrow> jsnum" where
  "numSub a b = numAdd a (numNeg b)"




definition isNaN :: "jsnum \<Rightarrow> bool" where
  "isNaN n = (n = NaN)"



subsection \<open>Strings to numbers\<close>

text \<open>
  \<^verbatim>\<open>Number(s)\<close> on a string follows the grammar \<open>StringNumericLiteral\<close> of
  ECMAScript: white space is trimmed, the empty string is 0, then comes a binary, octal
  or hexadecimal integer without sign, or a decimal literal with an optional sign, an
  optional fraction and an optional exponent, or a signed \<^verbatim>\<open>Infinity\<close>. Anything
  else is NaN. The functions up to \<open>stringNumericValue\<close> compute the exact value the
  literal denotes; \<open>stringToNumber\<close> rounds it to binary64. A string is a list of code
  units below 256, so the white space is the white space of that range.
\<close>

definition isStrWhiteSpaceChar :: "char \<Rightarrow> bool" where
  "isStrWhiteSpaceChar c = ((of_char c :: nat) \<in> {9, 10, 11, 12, 13, 32, 160})"

definition trimString :: "string \<Rightarrow> string" where
  "trimString s = rev (dropWhile isStrWhiteSpaceChar (rev (dropWhile isStrWhiteSpaceChar s)))"

definition isDecimalDigit :: "char \<Rightarrow> bool" where
  "isDecimalDigit c = (48 \<le> (of_char c :: nat) \<and> (of_char c :: nat) \<le> 57)"

text \<open>The value of a digit in a base up to 16, when it is one.\<close>

definition digitValue :: "nat \<Rightarrow> char \<Rightarrow> nat option" where
  "digitValue base c =
     (let n = (of_char c :: nat);
          v = (if 48 \<le> n \<and> n \<le> 57 then Some (n - 48)
               else if 97 \<le> n \<and> n \<le> 102 then Some (n - 87)
               else if 65 \<le> n \<and> n \<le> 70 then Some (n - 55)
               else None)
      in case v of None \<Rightarrow> None | Some d \<Rightarrow> if d < base then Some d else None)"

fun digitsValue :: "nat \<Rightarrow> nat \<Rightarrow> string \<Rightarrow> nat option" where
  "digitsValue base acc [] = Some acc"
| "digitsValue base acc (c # cs) =
     (case digitValue base c of
        None \<Rightarrow> None
      | Some d \<Rightarrow> digitsValue base (acc * base + d) cs)"

text \<open>\<open>DecimalDigits\<close> and the integers of other bases: at least one digit, digits only.\<close>

definition parseDigits :: "nat \<Rightarrow> string \<Rightarrow> nat option" where
  "parseDigits base s = (if s = [] then None else digitsValue base 0 s)"

definition parseSignedInteger :: "string \<Rightarrow> int option" where
  "parseSignedInteger s =
     (case s of
        [] \<Rightarrow> None
      | c # cs \<Rightarrow>
          if c = CHR ''+'' then map_option int (parseDigits 10 cs)
          else if c = CHR ''-'' then map_option (\<lambda>n. - int n) (parseDigits 10 cs)
          else map_option int (parseDigits 10 s))"

definition parseExponentPart :: "string \<Rightarrow> int option" where
  "parseExponentPart s =
     (case s of
        [] \<Rightarrow> Some 0
      | c # cs \<Rightarrow> if c = CHR ''e'' \<or> c = CHR ''E'' then parseSignedInteger cs else None)"

definition scaleByPowerOfTen :: "real \<Rightarrow> int \<Rightarrow> real" where
  "scaleByPowerOfTen m e = (if 0 \<le> e then m * 10 ^ nat e else m / 10 ^ nat (- e))"

definition strUnsignedDecimalLiteral :: "string \<Rightarrow> jsnum" where
  "strUnsignedDecimalLiteral s =
     (if s = ''Infinity'' then PosInf
      else
        let ip = takeWhile isDecimalDigit s;
            r1 = dropWhile isDecimalDigit s
        in case r1 of
             [] \<Rightarrow> (case parseDigits 10 ip of None \<Rightarrow> NaN | Some n \<Rightarrow> Fin (real n))
           | c # r2 \<Rightarrow>
               if c = CHR ''.'' then
                 (let fp = takeWhile isDecimalDigit r2;
                      r3 = dropWhile isDecimalDigit r2
                  in if ip = [] \<and> fp = [] then NaN
                     else case (digitsValue 10 0 ip, digitsValue 10 0 fp, parseExponentPart r3) of
                            (Some n, Some f, Some e) \<Rightarrow>
                              Fin (scaleByPowerOfTen (real n + real f / 10 ^ length fp) e)
                          | _ \<Rightarrow> NaN)
               else
                 (case (parseDigits 10 ip, parseExponentPart r1) of
                    (Some n, Some e) \<Rightarrow> Fin (scaleByPowerOfTen (real n) e)
                  | _ \<Rightarrow> NaN))"

definition strDecimalLiteral :: "string \<Rightarrow> jsnum" where
  "strDecimalLiteral s =
     (case s of
        [] \<Rightarrow> NaN
      | c # cs \<Rightarrow>
          if c = CHR ''+'' then strUnsignedDecimalLiteral cs
          else if c = CHR ''-'' then numNeg (strUnsignedDecimalLiteral cs)
          else strUnsignedDecimalLiteral s)"

text \<open>
  \<^verbatim>\<open>0x\<close>, \<^verbatim>\<open>0o\<close> and \<^verbatim>\<open>0b\<close> literals, either case of the letter. \<open>None\<close> when
  the string has no such prefix, so that it is read as a decimal literal.
\<close>

definition nonDecimalIntegerLiteral :: "string \<Rightarrow> jsnum option" where
  "nonDecimalIntegerLiteral s =
     (case s of
        z # p # ds \<Rightarrow>
          if z \<noteq> CHR ''0'' then None
          else
            (let base = (if p = CHR ''x'' \<or> p = CHR ''X'' then Some (16::nat)
                         else if p = CHR ''o'' \<or> p = CHR ''O'' then Some 8
                         else if p = CHR ''b'' \<or> p = CHR ''B'' then Some 2
                         else None)
             in case base of
                  None \<Rightarrow> None
                | Some b \<Rightarrow>
                    (case parseDigits b ds of
                       None \<Rightarrow> Some NaN
                     | Some n \<Rightarrow> Some (Fin (real n))))
      | _ \<Rightarrow> None)"

definition stringNumericValue :: "string \<Rightarrow> jsnum" where
  "stringNumericValue s =
     (let t = trimString s
      in if t = [] then Fin 0
         else case nonDecimalIntegerLiteral t of
                Some n \<Rightarrow> n
              | None \<Rightarrow> strDecimalLiteral t)"

definition stringToNumber :: "string \<Rightarrow> jsnum" where
  "stringToNumber s = roundNumber (stringNumericValue s)"

text \<open>\<open>ToNumber\<close> and \<open>ToBoolean\<close> on primitive values.\<close>

fun toNumber :: "jsval \<Rightarrow> jsnum" where
  "toNumber VUndefined = NaN"
| "toNumber VNull = Fin 0"
| "toNumber (VBool b) = (if b then Fin 1 else Fin 0)"
| "toNumber (VNum n) = n"
| "toNumber (VStr s) = stringToNumber s"

fun truthy :: "jsval \<Rightarrow> bool" where
  "truthy VUndefined = False"
| "truthy VNull = False"
| "truthy (VBool b) = b"
| "truthy (VNum n) = (n \<noteq> NaN \<and> n \<noteq> Fin 0)"
| "truthy (VStr s) = (s \<noteq> [])"

text \<open>
  \<^verbatim>\<open>v > n\<close> where \<open>n\<close> is a number: the relational comparison converts the other
  operand with \<open>ToNumber\<close>.
\<close>

definition gtNumber :: "jsval \<Rightarrow> jsnum \<Rightarrow> bool" where
  "gtNumber v n = numLess n (toNumber v)"

text \<open>\<^verbatim>\<open>v ?? d\<close>: the default replaces \<^verbatim>\<open>undefined\<close> and \<^verbatim>\<open>null\<close> only.\<close>

definition nullish :: "jsval \<Rightarrow> jsval \<Rightarrow> jsval" where
  "nullish v d = (if v = VUndefined \<or> v = VNull then d else v)"

text \<open>\<^verbatim>\<open>s.split(",")\<close> for a one-character separator: an empty string gives one empty piece.\<close>

fun splitOn :: "char \<Rightarrow> string \<Rightarrow> string list" where
  "splitOn sep [] = [[]]"
| "splitOn sep (c # cs) =
     (if c = sep then [] # splitOn sep cs
      else (case splitOn sep cs of
              [] \<Rightarrow> [[c]]
            | w # ws \<Rightarrow> (c # w) # ws))"

subsection \<open>Objects\<close>

text \<open>
  A plain object is the list of its own properties in insertion order. Assigning to a
  key that exists replaces the value in place, a new key goes to the end.
\<close>

type_synonym obj = "(string \<times> jsval) list"

definition getProp :: "obj \<Rightarrow> string \<Rightarrow> jsval" where
  "getProp ob k = (case map_of ob k of None \<Rightarrow> VUndefined | Some v \<Rightarrow> v)"

definition setProp :: "obj \<Rightarrow> string \<Rightarrow> jsval \<Rightarrow> obj" where
  "setProp ob k v = AList.update k v ob"

definition objectKeys :: "obj \<Rightarrow> string list" where
  "objectKeys ob = map fst ob"

text \<open>
  The statement \<^verbatim>\<open>if (input[k] !== undefined) target[k] = input[k]\<close>, which the tool
  handlers repeat for each field they accept.
\<close>

definition copyIfDefined :: "obj \<Rightarrow> string \<Rightarrow> obj \<Rightarrow> obj" where
  "copyIfDefined input k target =
     (if getProp input k \<noteq> VUndefined then setProp target k (getProp input k) else target)"

section \<open>Vertex generators\<close>













section \<open>Property schemas and layer types\<close>

text \<open>
  One entry of a shape's schema list. \<open>ptype\<close> is the source's \<^verbatim>\<open>type\<close>,
  \<open>minimum\<close> and \<open>maximum\<close> its \<^verbatim>\<open>min\<close> and \<^verbatim>\<open>max\<close>; an optional field
  of the source that an entry leaves out is \<open>None\<close> (\<open>[]\<close> for \<^verbatim>\<open>options\<close>).
\<close>

record layerPropertySchema =
  key :: string
  label :: string
  ptype :: string
  default :: jsval
  minimum :: "real option"
  maximum :: "real option"
  step :: "real option"
  group :: string
  options :: "(string \<times> string) list"

definition COMMON_SHAPE_PROPERTIES :: "layerPropertySchema list" where
  "COMMON_SHAPE_PROPERTIES =
     [\<lparr>key = ''fillColor'', label = ''Fill Color'', ptype = ''color'',
       default = VStr ''#ffffff'', minimum = None, maximum = None, step = None,
       group = ''fill'', options = []\<rparr>,
      \<lparr>key = ''fillEnabled'', label = ''Fill Enabled'', ptype = ''boolean'',
       default = VBool True, minimum = None, maximum = None, step = None,
       group = ''fill'', options = []\<rparr>,
      \<lparr>key = ''strokeColor'', label = ''Stroke Color'', ptype = ''color'',
       default = VStr ''#000000'', minimum = None, maximum = None, step = None,
       group = ''stroke'', options = []\<rparr>,
      \<lparr>key = ''strokeWidth'', label = ''Stroke Width'', ptype = ''number'',
       default = VNum (Fin 0), minimum = Some 0, maximum = Some 100, step = Some (1 / 2),
       group = ''stroke'', options = []\<rparr>,
      \<lparr>key = ''strokeEnabled'', label = ''Stroke Enabled'', ptype = ''boolean'',
       default = VBool False, minimum = None, maximum = None, step = None,
       group = ''stroke'', options = []\<rparr>]"

definition RECT_PROPERTIES :: "layerPropertySchema list" where
  "RECT_PROPERTIES =
     COMMON_SHAPE_PROPERTIES @
     [\<lparr>key = ''cornerRadius'', label = ''Corner Radius'', ptype = ''number'',
       default = VNum (Fin 0), minimum = Some 0, maximum = Some 500, step = Some 1,
       group = ''shape'', options = []\<rparr>]"

definition LINE_PROPERTIES :: "layerPropertySchema list" where
  "LINE_PROPERTIES =
     [\<lparr>key = ''strokeColor'', label = ''Line Color'', ptype = ''color'',
       default = VStr ''#ffffff'', minimum = None, maximum = None, step = None,
       group = ''stroke'', options = []\<rparr>,
      \<lparr>key = ''strokeWidth'', label = ''Line Width'', ptype = ''number'',
       default = VNum (Fin 2), minimum = Some (1 / 2), maximum = Some 100, step = Some (1 / 2),
       group = ''stroke'', options = []\<rparr>,
      \<lparr>key = ''lineCap'', label = ''Line Cap'', ptype = ''select'',
       default = VStr ''round'', minimum = None, maximum = None, step = None,
       group = ''stroke'',
       options = [(''butt'', ''Butt''), (''round'', ''Round''), (''square'', ''Square'')]\<rparr>,
      \<lparr>key = ''dashPattern'', label = ''Dash Pattern'', ptype = ''string'',
       default = VStr [], minimum = None, maximum = None, step = None,
       group = ''stroke'', options = []\<rparr>]"

definition POLYGON_PROPERTIES :: "layerPropertySchema list" where
  "POLYGON_PROPERTIES =
     COMMON_SHAPE_PROPERTIES @
     [\<lparr>key = ''sides'', label = ''Sides'', ptype = ''number'',
       default = VNum (Fin 6), minimum = Some 3, maximum = Some 100, step = Some 1,
       group = ''shape'', options = []\<rparr>,
      \<lparr>key = ''rotation'', label = ''Rotation'', ptype = ''number'',
       default = VNum (Fin 0), minimum = Some 0, maximum = Some 360, step = Some 1,
       group = ''shape'', options = []\<rparr>]"

definition STAR_PROPERTIES :: "layerPropertySchema list" where
  "STAR_PROPERTIES =
     COMMON_SHAPE_PROPERTIES @
     [\<lparr>key = ''points'', label = ''Points'', ptype = ''number'',
       default = VNum (Fin 5), minimum = Some 3, maximum = Some 50, step = Some 1,
       group = ''shape'', options = []\<rparr>,
      \<lparr>key = ''innerRadius'', label = ''Inner Radius'', ptype = ''number'',
       default = VNum (Fin (4 / 10)), minimum = Some (5 / 100), maximum = Some (95 / 100),
       step = Some (1 / 100), group = ''shape'', options = []\<rparr>,
      \<lparr>key = ''rotation'', label = ''Rotation'', ptype = ''number'',
       default = VNum (Fin 0), minimum = Some 0, maximum = Some 360, step = Some 1,
       group = ''shape'', options = []\<rparr>]"

text \<open>
  The body every \<^verbatim>\<open>createDefault\<close> shares, over its own schema list:
  \<^verbatim>\<open>for (const schema of X_PROPERTIES) props[schema.key] = schema.default\<close>.
\<close>

fun createDefaultLoop :: "layerPropertySchema list \<Rightarrow> obj \<Rightarrow> obj" where
  "createDefaultLoop [] props = props"
| "createDefaultLoop (schema # rest) props =
     createDefaultLoop rest (setProp props (key schema) (default schema))"

text \<open>
  A layer type definition, without its render and validation functions, which are
  functions of their own below. \<open>createDefault\<close> takes no argument and builds a fresh
  object on every call; the model holds the object it returns.
\<close>

record layerTypeDefinition =
  typeId :: string
  displayName :: string
  icon :: string
  category :: string
  properties :: "layerPropertySchema list"
  propertyEditorId :: string
  createDefault :: obj

definition rectLayerType :: layerTypeDefinition where
  "rectLayerType =
     \<lparr>typeId = ''shapes:rect'', displayName = ''Rectangle'', icon = ''square'',
      category = ''shape'', properties = RECT_PROPERTIES,
      propertyEditorId = ''shapes:rect-editor'',
      createDefault = createDefaultLoop RECT_PROPERTIES []\<rparr>"

definition ellipseLayerType :: layerTypeDefinition where
  "ellipseLayerType =
     \<lparr>typeId = ''shapes:ellipse'', displayName = ''Ellipse'', icon = ''circle'',
      category = ''shape'', properties = COMMON_SHAPE_PROPERTIES,
      propertyEditorId = ''shapes:ellipse-editor'',
      createDefault = createDefaultLoop COMMON_SHAPE_PROPERTIES []\<rparr>"

definition lineLayerType :: layerTypeDefinition where
  "lineLayerType =
     \<lparr>typeId = ''shapes:line'', displayName = ''Line'', icon = ''minus'',
      category = ''shape'', properties = LINE_PROPERTIES,
      propertyEditorId = ''shapes:line-editor'',
      createDefault = createDefaultLoop LINE_PROPERTIES []\<rparr>"

definition polygonLayerType :: layerTypeDefinition where
  "polygonLayerType =
     \<lparr>typeId = ''shapes:polygon'', displayName = ''Polygon'', icon = ''hexagon'',
      category = ''shape'', properties = POLYGON_PROPERTIES,
      propertyEditorId = ''shapes:polygon-editor'',
      createDefault = createDefaultLoop POLYGON_PROPERTIES []\<rparr>"

definition starLayerType :: layerTypeDefinition where
  "starLayerType =
     \<lparr>typeId = ''shapes:star'', displayName = ''Star'', icon = ''star'',
      category = ''shape'', properties = STAR_PROPERTIES,
      propertyEditorId = ''shapes:star-editor'',
      createDefault = createDefaultLoop STAR_PROPERTIES []\<rparr>"

text \<open>The plugin descriptor's \<^verbatim>\<open>layerTypes\<close>, in the order of index.ts.\<close>

definition layerTypes :: "layerTypeDefinition list" where
  "layerTypes = [rectLayerType, ellipseLayerType, lineLayerType, polygonLayerType, starLayerType]"

section \<open>Canvas rendering\<close>

text \<open>
  The drawing context is what a render does to it: the sequence of its method calls and
  property writes. A render takes the sequence so far and returns it extended.
\<close>

datatype canvasOp =
    Save
  | Restore
  | BeginPath
  | MoveTo jsnum jsnum
  | LineTo jsnum jsnum
  | Rect jsnum jsnum jsnum jsnum
  | RoundRect jsnum jsnum jsnum jsnum jsnum
  | SetFillStyle jsval
  | Fill
  | SetStrokeStyle jsval
  | SetLineWidth jsval
  | SetLineCap jsval
  | SetLineDash "jsnum list"
  | Stroke

type_synonym canvas = "canvasOp list"

record layerBounds =
  bounds_x :: jsnum
  bounds_y :: jsnum
  bounds_width :: jsnum
  bounds_height :: jsnum
  bounds_rotation :: jsnum
  bounds_scaleX :: jsnum
  bounds_scaleY :: jsnum



text \<open>
  The dash block of \<^verbatim>\<open>lineLayerType.render\<close> (line.ts):
  \<^verbatim>\<open>dashStr.split(",").map(Number).filter((n) => !isNaN(n) && n > 0)\<close>.
\<close>

definition parseDashes :: "string \<Rightarrow> jsnum list" where
  "parseDashes dashStr =
     filter (\<lambda>n. \<not> isNaN n \<and> numLess (Fin 0) n) (map stringToNumber (splitOn CHR '','' dashStr))"

text \<open>
  \<^verbatim>\<open>lineLayerType.render\<close>. A truthy \<^verbatim>\<open>dashPattern\<close> that is no string has no
  \<^verbatim>\<open>split\<close> method: the call throws a TypeError and the render ends there, before
  \<^verbatim>\<open>stroke\<close> and \<^verbatim>\<open>restore\<close>.
\<close>

definition lineRender :: "obj \<Rightarrow> canvas \<Rightarrow> layerBounds \<Rightarrow> (jsError + unit) \<times> canvas" where
  "lineRender props ctx bounds =
     (let color = nullish (getProp props ''strokeColor'') (VStr ''#ffffff'');
          width = nullish (getProp props ''strokeWidth'') (VNum (Fin 2));
          cap = nullish (getProp props ''lineCap'') (VStr ''round'');
          dashStr = nullish (getProp props ''dashPattern'') (VStr []);
          ctx1 = ctx @ [Save, BeginPath,
                        MoveTo (bounds_x bounds) (bounds_y bounds),
                        LineTo (numAdd (bounds_x bounds) (bounds_width bounds))
                               (numAdd (bounds_y bounds) (bounds_height bounds)),
                        SetStrokeStyle color, SetLineWidth width, SetLineCap cap]
      in if truthy dashStr
         then (case dashStr of
                 VStr s \<Rightarrow>
                   (let dashes = parseDashes s;
                        ctx2 = (if length dashes > 0 then ctx1 @ [SetLineDash dashes] else ctx1)
                    in (Inr (), ctx2 @ [Stroke, Restore]))
               | _ \<Rightarrow> (Inl TypeError, ctx1))
         else (Inr (), ctx1 @ [Stroke, Restore]))"

section \<open>Tool handlers\<close>

text \<open>
  The text of a result is a template literal: its fixed pieces and the values substituted
  into it, in order. The conversion of a substituted value to text is left to the reader
  of the result.
\<close>

datatype templatePart = Chars string | Subst jsval

definition quote :: string where
  "quote = [CHR 0x27]"

record textContent =
  ctype :: string
  ctext :: "templatePart list"

text \<open>\<open>isError\<close> is \<open>None\<close> where the source leaves the optional field out.\<close>

record mcpToolResult =
  content :: "textContent list"
  isError :: "bool option"

definition textResult :: "templatePart list \<Rightarrow> mcpToolResult" where
  "textResult t = \<lparr>content = [\<lparr>ctype = ''text'', ctext = t\<rparr>], isError = None\<rparr>"

definition errorResult :: "templatePart list \<Rightarrow> mcpToolResult" where
  "errorResult t = \<lparr>content = [\<lparr>ctype = ''text'', ctext = t\<rparr>], isError = Some True\<rparr>"

text \<open>
  \<^verbatim>\<open>generateLayerId\<close> joins \<^verbatim>\<open>Date.now().toString(36)\<close> and six characters of
  \<^verbatim>\<open>Math.random().toString(36)\<close>; the two texts come from the environment and are
  arguments here.
\<close>

definition generateLayerId :: "string \<Rightarrow> string \<Rightarrow> string" where
  "generateLayerId now36 random36 = ''layer-'' @ now36 @ ''-'' @ random36"

record layerTransform =
  transform_x :: jsval
  transform_y :: jsval
  transform_width :: jsval
  transform_height :: jsval
  transform_rotation :: jsval
  transform_scaleX :: jsval
  transform_scaleY :: jsval
  transform_anchorX :: jsval
  transform_anchorY :: jsval

record designLayer =
  layer_id :: string
  layer_type :: string
  layer_name :: string
  visible :: bool
  locked :: bool
  opacity :: jsnum
  blendMode :: string
  transform :: layerTransform
  layer_properties :: obj

text \<open>
  The host's context. \<open>layers_get\<close> is its accessor \<^verbatim>\<open>context.layers.get\<close>;
  \<open>calls\<close> records every invocation of \<^verbatim>\<open>layers.add\<close>,
  \<^verbatim>\<open>layers.updateProperties\<close> and \<^verbatim>\<open>emitChange\<close>, in order. What the host does on
  such a call is its own business.
\<close>

datatype hostCall =
    LayersAdd designLayer
  | LayersUpdateProperties jsval obj
  | EmitChange string

record mcpToolContext =
  layers_get :: "jsval \<Rightarrow> designLayer option"
  calls :: "hostCall list"

definition layersAdd :: "designLayer \<Rightarrow> mcpToolContext \<Rightarrow> mcpToolContext" where
  "layersAdd layer context = context\<lparr>calls := calls context @ [LayersAdd layer]\<rparr>"

definition layersUpdateProperties :: "jsval \<Rightarrow> obj \<Rightarrow> mcpToolContext \<Rightarrow> mcpToolContext" where
  "layersUpdateProperties layerId updates context =
     context\<lparr>calls := calls context @ [LayersUpdateProperties layerId updates]\<rparr>"

definition emitChange :: "string \<Rightarrow> mcpToolContext \<Rightarrow> mcpToolContext" where
  "emitChange change context = context\<lparr>calls := calls context @ [EmitChange change]\<rparr>"

text \<open>
  \<^verbatim>\<open>SHAPE_TYPES[shapeKey]\<close> reads a property of an object literal, so it also finds
  what the literal inherits from \<^verbatim>\<open>Object.prototype\<close>: functions, and the prototype
  itself under \<^verbatim>\<open>__proto__\<close>. All of them are truthy and none has a
  \<^verbatim>\<open>createDefault\<close>.
\<close>

datatype 'a propertyLookup = Own 'a | Inherited | Missing

definition SHAPE_TYPES :: "(string \<times> layerTypeDefinition) list" where
  "SHAPE_TYPES =
     [(''rect'', rectLayerType), (''ellipse'', ellipseLayerType),
      (''polygon'', polygonLayerType), (''star'', starLayerType)]"

definition objectPrototypeKeys :: "string list" where
  "objectPrototypeKeys =
     [''constructor'', ''__defineGetter__'', ''__defineSetter__'', ''hasOwnProperty'',
      ''__lookupGetter__'', ''__lookupSetter__'', ''isPrototypeOf'', ''propertyIsEnumerable'',
      ''toString'', ''valueOf'', ''__proto__'', ''toLocaleString'']"

text \<open>
  A key that is no string is converted to \<^verbatim>\<open>undefined\<close>, \<^verbatim>\<open>null\<close>,
  \<^verbatim>\<open>true\<close>, \<^verbatim>\<open>false\<close> or the text of a number, and none of these is a property.
\<close>

definition lookupShapeType :: "jsval \<Rightarrow> layerTypeDefinition propertyLookup" where
  "lookupShapeType shapeKey =
     (case shapeKey of
        VStr s \<Rightarrow>
          (case map_of SHAPE_TYPES s of
             Some shapeDef \<Rightarrow> Own shapeDef
           | None \<Rightarrow> if s \<in> set objectPrototypeKeys then Inherited else Missing)
      | _ \<Rightarrow> Missing)"

text \<open>The merge of the caller's fields onto the defaults in \<^verbatim>\<open>addShapeTool.handler\<close>.\<close>

definition mergeShapeProperties :: "obj \<Rightarrow> obj \<Rightarrow> obj" where
  "mergeShapeProperties input defaults =
     (let p0 = defaults;
          p1 = copyIfDefined input ''fillColor'' p0;
          p2 = copyIfDefined input ''strokeColor'' p1;
          p3 = (if getProp input ''strokeWidth'' \<noteq> VUndefined
                then setProp (setProp p2 ''strokeWidth'' (getProp input ''strokeWidth''))
                       ''strokeEnabled'' (VBool (gtNumber (getProp input ''strokeWidth'') (Fin 0)))
                else p2);
          p4 = copyIfDefined input ''sides'' p3;
          p5 = copyIfDefined input ''points'' p4
      in copyIfDefined input ''cornerRadius'' p5)"

text \<open>
  \<^verbatim>\<open>addShapeTool.handler\<close>. For an inherited property the guard \<^verbatim>\<open>!shapeDef\<close>
  does not fire and \<^verbatim>\<open>shapeDef.createDefault()\<close> throws a TypeError: the promise of
  the handler is rejected.
\<close>

definition addShapeHandler ::
  "obj \<Rightarrow> mcpToolContext \<Rightarrow> string \<Rightarrow> string \<Rightarrow> (jsError + mcpToolResult) \<times> mcpToolContext" where
  "addShapeHandler input context now36 random36 =
     (let shapeKey = getProp input ''shape''
      in case lookupShapeType shapeKey of
           Missing \<Rightarrow>
             (Inr (errorResult [Chars (''Unknown shape type '' @ quote), Subst shapeKey,
                                Chars (quote @ ''.'')]),
              context)
         | Inherited \<Rightarrow> (Inl TypeError, context)
         | Own shapeDef \<Rightarrow>
             (let defaults = createDefault shapeDef;
                  props = mergeShapeProperties input defaults;
                  ident = generateLayerId now36 random36;
                  tr = \<lparr>transform_x = nullish (getProp input ''x'') (VNum (Fin 100)),
                        transform_y = nullish (getProp input ''y'') (VNum (Fin 100)),
                        transform_width = nullish (getProp input ''width'') (VNum (Fin 200)),
                        transform_height = nullish (getProp input ''height'') (VNum (Fin 200)),
                        transform_rotation = VNum (Fin 0),
                        transform_scaleX = VNum (Fin 1),
                        transform_scaleY = VNum (Fin 1),
                        transform_anchorX = VNum (Fin (1 / 2)),
                        transform_anchorY = VNum (Fin (1 / 2))\<rparr>;
                  layer = \<lparr>layer_id = ident, layer_type = typeId shapeDef,
                           layer_name = displayName shapeDef, visible = True, locked = False,
                           opacity = Fin 1, blendMode = ''normal'', transform = tr,
                           layer_properties = props\<rparr>;
                  context1 = layersAdd layer context;
                  context2 = emitChange ''layer-added'' context1
              in (Inr (textResult [Chars ''Added '', Chars (displayName shapeDef),
                                   Chars ('' layer '' @ quote), Chars ident,
                                   Chars (quote @ ''.'')]),
                  context2)))"

definition startsWith :: "string \<Rightarrow> string \<Rightarrow> bool" where
  "startsWith s p = (take (length p) s = p)"

text \<open>
  The loop of \<^verbatim>\<open>setShapeStyleTool.handler\<close>:
  \<^verbatim>\<open>for (const key of keys) if (input[key] !== undefined) updates[key] = input[key]\<close>.
\<close>

fun styleUpdatesLoop :: "string list \<Rightarrow> obj \<Rightarrow> obj \<Rightarrow> obj" where
  "styleUpdatesLoop [] input updates = updates"
| "styleUpdatesLoop (k # ks) input updates =
     styleUpdatesLoop ks input (copyIfDefined input k updates)"

definition setShapeStyleHandler ::
  "obj \<Rightarrow> mcpToolContext \<Rightarrow> (jsError + mcpToolResult) \<times> mcpToolContext" where
  "setShapeStyleHandler input context =
     (let layerId = getProp input ''layerId''
      in case layers_get context layerId of
           None \<Rightarrow>
             (Inr (errorResult [Chars (''Layer '' @ quote), Subst layerId,
                                Chars (quote @ '' not found.'')]),
              context)
         | Some layer \<Rightarrow>
             if \<not> startsWith (layer_type layer) ''shapes:''
             then (Inr (errorResult [Chars (''Layer '' @ quote), Subst layerId,
                                     Chars (quote @ '' is not a shape layer.'')]),
                   context)
             else
               (let keys = [''fillColor'', ''fillEnabled'', ''strokeColor'', ''strokeWidth'',
                            ''strokeEnabled''];
                    updates = styleUpdatesLoop keys input []
                in if length (objectKeys updates) = 0
                   then (Inr (errorResult [Chars ''No style properties provided.'']), context)
                   else
                     (let context1 = layersUpdateProperties layerId updates context;
                          context2 = emitChange ''layer-updated'' context1
                      in (Inr (textResult [Chars (''Updated style on shape layer '' @ quote),
                                           Subst layerId, Chars (quote @ ''.'')]),
                          context2))))"

definition setPolygonHandler ::
  "obj \<Rightarrow> mcpToolContext \<Rightarrow> (jsError + mcpToolResult) \<times> mcpToolContext" where
  "setPolygonHandler input context =
     (let layerId = getProp input ''layerId''
      in case layers_get context layerId of
           None \<Rightarrow>
             (Inr (errorResult [Chars (''Layer '' @ quote), Subst layerId,
                                Chars (quote @ '' not found.'')]),
              context)
         | Some layer \<Rightarrow>
             if layer_type layer \<noteq> ''shapes:polygon''
             then (Inr (errorResult [Chars (''Layer '' @ quote), Subst layerId,
                                     Chars (quote @ '' is not a polygon layer.'')]),
                   context)
             else
               (let u0 = [];
                    u1 = copyIfDefined input ''sides'' u0;
                    updates = copyIfDefined input ''rotation'' u1;
                    context1 = layersUpdateProperties layerId updates context;
                    context2 = emitChange ''layer-updated'' context1
                in (Inr (textResult [Chars (''Updated polygon layer '' @ quote),
                                     Subst layerId, Chars (quote @ ''.'')]),
                    context2)))"

text \<open>
  \<^verbatim>\<open>addLineTool.handler\<close>. The operator \<^verbatim>\<open>-\<close> converts both operands with
  \<open>ToNumber\<close>.
\<close>

definition addLineHandler ::
  "obj \<Rightarrow> mcpToolContext \<Rightarrow> string \<Rightarrow> string \<Rightarrow> (jsError + mcpToolResult) \<times> mcpToolContext" where
  "addLineHandler input context now36 random36 =
     (let x1 = nullish (getProp input ''x1'') (VNum (Fin 0));
          y1 = nullish (getProp input ''y1'') (VNum (Fin 0));
          x2 = nullish (getProp input ''x2'') (VNum (Fin 200));
          y2 = nullish (getProp input ''y2'') (VNum (Fin 200));
          defaults = createDefault lineLayerType;
          p0 = defaults;
          p1 = copyIfDefined input ''strokeColor'' p0;
          props = copyIfDefined input ''strokeWidth'' p1;
          ident = generateLayerId now36 random36;
          layer = \<lparr>layer_id = ident, layer_type = ''shapes:line'', layer_name = ''Line'',
                   visible = True, locked = False, opacity = Fin 1, blendMode = ''normal'',
                   transform =
                     \<lparr>transform_x = x1,
                      transform_y = y1,
                      transform_width = VNum (numSub (toNumber x2) (toNumber x1)),
                      transform_height = VNum (numSub (toNumber y2) (toNumber y1)),
                      transform_rotation = VNum (Fin 0),
                      transform_scaleX = VNum (Fin 1),
                      transform_scaleY = VNum (Fin 1),
                      transform_anchorX = VNum (Fin 0),
                      transform_anchorY = VNum (Fin 0)\<rparr>,
                   layer_properties = props\<rparr>;
          context1 = layersAdd layer context;
          context2 = emitChange ''layer-added'' context1
      in (Inr (textResult [Chars (''Added line layer '' @ quote), Chars ident,
                           Chars (quote @ '' from (''), Subst x1, Chars '','', Subst y1,
                           Chars '') to ('', Subst x2, Chars '','', Subst y2, Chars '').'']),
          context2))"

section \<open>Notions of the specification and test fixtures\<close>

text \<open>A number that is not NaN and greater than 0.\<close>

fun positiveNumber :: "jsnum \<Rightarrow> bool" where
  "positiveNumber (Fin a) = (0 < a)"
| "positiveNumber PosInf = True"
| "positiveNumber n = False"

text \<open>The layers a context was asked to add, in order.\<close>

fun addedLayers :: "hostCall list \<Rightarrow> designLayer list" where
  "addedLayers [] = []"
| "addedLayers (LayersAdd layer # cs) = layer # addedLayers cs"
| "addedLayers (c # cs) = addedLayers cs"

text \<open>
  \<^verbatim>\<open>createMockLayer\<close> and \<^verbatim>\<open>createMockContext\<close> of the tool tests: a layer
  \<^verbatim>\<open>layer-1\<close> of a given type, and a context that finds its layers by id and has
  recorded no call yet.
\<close>

definition createMockLayer :: "string \<Rightarrow> designLayer" where
  "createMockLayer ty =
     \<lparr>layer_id = ''layer-1'', layer_type = ty, layer_name = ''Rectangle'',
      visible = True, locked = False, opacity = Fin 1, blendMode = ''normal'',
      transform =
        \<lparr>transform_x = VNum (Fin 100), transform_y = VNum (Fin 100),
         transform_width = VNum (Fin 200), transform_height = VNum (Fin 200),
         transform_rotation = VNum (Fin 0), transform_scaleX = VNum (Fin 1),
         transform_scaleY = VNum (Fin 1), transform_anchorX = VNum (Fin (1 / 2)),
         transform_anchorY = VNum (Fin (1 / 2))\<rparr>,
      layer_properties = [(''fillColor'', VStr ''#ffffff''), (''fillEnabled'', VBool True)]\<rparr>"

definition createMockContext :: "designLayer list \<Rightarrow> mcpToolContext" where
  "createMockContext layers =
     \<lparr>layers_get = (\<lambda>ident. case ident of
                                VStr s \<Rightarrow> find (\<lambda>layer. layer_id layer = s) layers
                              | _ \<Rightarrow> None),
      calls = []\<rparr>"

text \<open>The bounds \<open>(x, y, width, height)\<close> of a render call, unrotated and unscaled.\<close>

definition plainBounds :: "real \<Rightarrow> real \<Rightarrow> real \<Rightarrow> real \<Rightarrow> layerBounds" where
  "plainBounds x y w h =
     \<lparr>bounds_x = Fin x, bounds_y = Fin y, bounds_width = Fin w, bounds_height = Fin h,
      bounds_rotation = Fin 0, bounds_scaleX = Fin 1, bounds_scaleY = Fin 1\<rparr>"

section \<open>Properties of binary64 rounding\<close>

lemma binaryExponent_less_iff:
  assumes "x \<noteq> 0"
  shows "binaryExponent x < k \<longleftrightarrow> \<bar>x\<bar> < 2 powi k"
proof -
  have "binaryExponent x < k \<longleftrightarrow> log 2 \<bar>x\<bar> < of_int k"
    by (simp add: binaryExponent_def floor_less_iff)
  also have "\<dots> \<longleftrightarrow> \<bar>x\<bar> < 2 powr of_int k"
    using assms by (simp add: log_less_iff)
  also have "2 powr of_int k = (2::real) powi k"
    by (simp add: powr_real_of_int')
  finally show ?thesis .
qed

lemma binaryExponent_ge_iff:
  assumes "x \<noteq> 0"
  shows "k \<le> binaryExponent x \<longleftrightarrow> 2 powi k \<le> \<bar>x\<bar>"
  using binaryExponent_less_iff [OF assms, of k] by linarith

text \<open>
  On a rational \<open>p / q\<close> the exponent is the difference of the bit lengths of \<open>p\<close> and
  \<open>q\<close> or one less, which makes \<open>roundBinary64\<close> computable.
\<close>

lemma binaryExponent_unique:
  assumes "x \<noteq> 0" and "2 powi e \<le> \<bar>x\<bar>" and "\<bar>x\<bar> < 2 powi (e + 1)"
  shows "binaryExponent x = e"
  using binaryExponent_less_iff [OF assms(1), of "e + 1"] binaryExponent_ge_iff [OF assms(1), of e]
    assms(2,3)
  by linarith

lemma bitlen_powi_bounds:
  assumes "0 < p"
  shows "2 powi (bitlen p - 1) \<le> real_of_int p" and "real_of_int p < 2 powi (bitlen p)"
proof -
  have b: "0 < bitlen p"
    using assms bitlen_nonneg [of p] bitlen_eq_zero_iff [of p] by linarith
  from bitlen_bounds [OF assms]
  have l: "2 ^ nat (bitlen p - 1) \<le> p" and u: "p < 2 ^ nat (bitlen p)" by simp_all
  have "real_of_int (2 ^ nat (bitlen p - 1)) \<le> real_of_int p" using l by linarith
  then show "2 powi (bitlen p - 1) \<le> real_of_int p"
    using b by (simp add: power_int_def)
  have "real_of_int p < real_of_int (2 ^ nat (bitlen p))" using u by linarith
  then show "real_of_int p < 2 powi (bitlen p)"
    using b by (simp add: power_int_def)
qed

lemma binaryExponent_quotient:
  assumes p: "p \<noteq> 0" and q: "0 < q"
  shows "binaryExponent (of_int p / of_int q) =
     (let d = bitlen \<bar>p\<bar> - bitlen q
      in if (if 0 \<le> d then 2 ^ nat d * q \<le> \<bar>p\<bar> else q \<le> \<bar>p\<bar> * 2 ^ nat (- d)) then d else d - 1)"
proof -
  define d where "d = bitlen \<bar>p\<bar> - bitlen q"
  define x :: real where "x = of_int p / of_int q"
  have x0: "x \<noteq> 0" using p q by (simp add: x_def)
  have ax: "\<bar>x\<bar> = of_int \<bar>p\<bar> / of_int q" using q by (simp add: x_def)
  have pp: "0 < \<bar>p\<bar>" using p by simp
  note bp = bitlen_powi_bounds [OF pp] and bq = bitlen_powi_bounds [OF q]
  have qr: "0 < real_of_int q" using q by simp
  have test: "(if 0 \<le> d then 2 ^ nat d * q \<le> \<bar>p\<bar> else q \<le> \<bar>p\<bar> * 2 ^ nat (- d)) \<longleftrightarrow>
              2 powi d \<le> \<bar>x\<bar>"
  proof (cases "0 \<le> d")
    case True
    have "2 ^ nat d * q \<le> \<bar>p\<bar> \<longleftrightarrow> real_of_int (2 ^ nat d * q) \<le> real_of_int \<bar>p\<bar>"
      by linarith
    also have "\<dots> \<longleftrightarrow> 2 powi d * real_of_int q \<le> real_of_int \<bar>p\<bar>"
      using True by (simp add: power_int_def)
    also have "\<dots> \<longleftrightarrow> 2 powi d \<le> \<bar>x\<bar>"
      unfolding ax using qr by (simp add: pos_le_divide_eq)
    finally show ?thesis using True by simp
  next
    case False
    then have nd: "0 < - d" by simp
    have "q \<le> \<bar>p\<bar> * 2 ^ nat (- d) \<longleftrightarrow> real_of_int q \<le> real_of_int (\<bar>p\<bar> * 2 ^ nat (- d))"
      by linarith
    also have "\<dots> \<longleftrightarrow> real_of_int q \<le> real_of_int \<bar>p\<bar> * 2 powi (- d)"
      using nd by (simp add: power_int_def)
    also have "\<dots> \<longleftrightarrow> 2 powi d * real_of_int q \<le> real_of_int \<bar>p\<bar>"
      by (simp add: power_int_minus field_simps)
    also have "\<dots> \<longleftrightarrow> 2 powi d \<le> \<bar>x\<bar>"
      unfolding ax using qr by (simp add: pos_le_divide_eq)
    finally show ?thesis using False by simp
  qed
  have lower: "2 powi (d - 1) \<le> \<bar>x\<bar>"
  proof -
    have "2 powi (d - 1) * real_of_int q \<le> 2 powi (d - 1) * 2 powi (bitlen q)"
      using bq(2) by (intro mult_left_mono) simp_all
    also have "\<dots> = 2 powi (bitlen \<bar>p\<bar> - 1)"
      by (simp add: d_def power_int_add [symmetric])
    also have "\<dots> \<le> real_of_int \<bar>p\<bar>" by (rule bp(1))
    finally show ?thesis unfolding ax using qr by (simp add: pos_le_divide_eq)
  qed
  have upper: "\<bar>x\<bar> < 2 powi (d + 1)"
  proof -
    have "real_of_int \<bar>p\<bar> < 2 powi (bitlen \<bar>p\<bar>)" by (rule bp(2))
    also have "\<dots> = 2 powi (d + 1) * 2 powi (bitlen q - 1)"
      by (simp add: d_def power_int_add [symmetric])
    also have "\<dots> \<le> 2 powi (d + 1) * real_of_int q"
      using bq(1) by (intro mult_left_mono) simp_all
    finally show ?thesis unfolding ax using qr by (simp add: pos_divide_less_eq)
  qed
  have "binaryExponent x = (if 2 powi d \<le> \<bar>x\<bar> then d else d - 1)"
  proof (cases "2 powi d \<le> \<bar>x\<bar>")
    case True
    then show ?thesis using binaryExponent_unique [OF x0 True upper] by simp
  next
    case False
    then have "\<bar>x\<bar> < 2 powi (d - 1 + 1)" by simp
    from binaryExponent_unique [OF x0 lower this] False show ?thesis by simp
  qed
  then show ?thesis
    unfolding x_def [symmetric] d_def [symmetric] Let_def test .
qed

lemma binaryExponent_code [code]:
  "binaryExponent (Ratreal r) =
     (case quotient_of r of (p, q) \<Rightarrow>
        if p = 0 then 0
        else let d = bitlen \<bar>p\<bar> - bitlen q
             in if (if 0 \<le> d then 2 ^ nat d * q \<le> \<bar>p\<bar> else q \<le> \<bar>p\<bar> * 2 ^ nat (- d))
                then d else d - 1)"
proof (cases "quotient_of r")
  case (Pair p q)
  then have q: "0 < q" by (rule quotient_of_denom_pos)
  have r: "Ratreal r = of_int p / of_int q"
    using quotient_of_div [OF Pair] by (simp add: of_rat_divide)
  show ?thesis
  proof (cases "p = 0")
    case True
    then show ?thesis using Pair r by (simp add: binaryExponent_def log_def)
  next
    case False
    show ?thesis
      unfolding r Pair using binaryExponent_quotient [OF False q] False by simp
  qed
qed

lemma roundHalfEven_of_int [simp]: "roundHalfEven (of_int k) = k"
  by (simp add: roundHalfEven_def)

lemma roundHalfEven_ge_floor: "\<lfloor>y\<rfloor> \<le> roundHalfEven y"
  by (simp add: roundHalfEven_def Let_def)

lemma roundHalfEven_nonneg: "0 \<le> y \<Longrightarrow> 0 \<le> roundHalfEven y"
  using roundHalfEven_ge_floor [of y] by (simp add: order_trans [OF _ roundHalfEven_ge_floor])

lemma roundHalfEven_le_ceiling: "roundHalfEven y \<le> \<lceil>y\<rceil>"
proof -
  have "\<lfloor>y\<rfloor> = \<lceil>y\<rceil> \<or> \<lfloor>y\<rfloor> + 1 = \<lceil>y\<rceil>" by linarith
  moreover have "y - of_int \<lfloor>y\<rfloor> < 1 / 2" if "\<lfloor>y\<rfloor> = \<lceil>y\<rceil>"
    using that by linarith
  ultimately show ?thesis
    by (auto simp: roundHalfEven_def Let_def)
qed

lemma roundHalfEven_nonpos: "y \<le> 0 \<Longrightarrow> roundHalfEven y \<le> 0"
  using roundHalfEven_le_ceiling [of y] by (simp add: ceiling_le_zero order_trans)

lemma roundHalfEven_small: "\<bar>y\<bar> < 1 / 2 \<Longrightarrow> roundHalfEven y = 0"
proof (cases "0 \<le> y")
  case True
  assume "\<bar>y\<bar> < 1 / 2"
  with True have "\<lfloor>y\<rfloor> = 0" by linarith
  with True \<open>\<bar>y\<bar> < 1 / 2\<close> show ?thesis by (simp add: roundHalfEven_def)
next
  case False
  assume a: "\<bar>y\<bar> < 1 / 2"
  with False have f: "\<lfloor>y\<rfloor> = - 1" by linarith
  from False a have "1 / 2 < y - of_int (- 1 :: int)" by simp
  with f show ?thesis by (simp add: roundHalfEven_def)
qed

lemma roundBinary64_representable:
  assumes m: "\<bar>m\<bar> < 2 ^ 53" and e: "- 1074 \<le> e" "e \<le> 971"
  shows "roundBinary64 (of_int m * 2 powi e) = Fin (of_int m * 2 powi e)"
proof (cases "m = 0")
  case True
  then show ?thesis by (simp add: roundBinary64_def)
next
  case False
  define x :: real where "x = of_int m * 2 powi e"
  define q where "q = max (binaryExponent x) (- 1022) - 52"
  have x0: "x \<noteq> 0" using False by (simp add: x_def)
  have absx: "\<bar>x\<bar> = of_int \<bar>m\<bar> * 2 powi e"
    by (simp add: x_def abs_mult)
  have "of_int \<bar>m\<bar> < (2::real) ^ 53"
    using m by (metis of_int_less_iff of_int_numeral of_int_power)
  then have "\<bar>x\<bar> < 2 ^ 53 * 2 powi e"
    unfolding absx by (simp add: mult_strict_right_mono)
  also have "\<dots> = 2 powi (e + 53)"
    by (simp add: power_int_add)
  finally have "binaryExponent x < e + 53"
    using binaryExponent_less_iff [OF x0] by simp
  with e have qe: "q \<le> e" by (simp add: q_def)
  define k where "k = m * 2 ^ nat (e - q)"
  have pw: "(2::real) powi e = 2 ^ nat (e - q) * 2 powi q"
  proof -
    have "(2::real) powi e = 2 powi ((e - q) + q)" by simp
    also have "\<dots> = 2 powi (e - q) * 2 powi q"
      by (rule power_int_add) simp
    also have "(2::real) powi (e - q) = 2 ^ nat (e - q)"
      using qe by (simp add: power_int_def)
    finally show ?thesis .
  qed
  have xk: "x = of_int k * 2 powi q"
    by (simp add: x_def k_def pw)
  then have quot: "x / 2 powi q = of_int k" by simp
  have "\<bar>x\<bar> < 2 ^ 53 * 2 powi e" by fact
  also have "\<dots> \<le> 2 ^ 53 * 2 powi 971"
  proof -
    have "(2::real) powi e \<le> 2 powi 971"
      using e by (intro power_int_increasing) simp_all
    then show ?thesis by (intro mult_left_mono) simp_all
  qed
  also have "\<dots> = 2 ^ 1024" by (simp add: power_int_def)
  finally have fin: "\<not> 2 ^ 1024 \<le> \<bar>x\<bar>" by simp
  show ?thesis
    using x0 fin unfolding x_def [symmetric]
    by (simp add: roundBinary64_def Let_def q_def [symmetric] quot xk [symmetric])
qed

lemma roundBinary64_of_int:
  assumes "\<bar>m\<bar> < 2 ^ 53"
  shows "roundBinary64 (of_int m) = Fin (of_int m)"
  using roundBinary64_representable [OF assms, of 0] by simp

lemma roundBinary64_overflow:
  assumes "2 ^ 1024 \<le> x"
  shows "roundBinary64 x = PosInf"
proof -
  define q where "q = max (binaryExponent x) (- 1022) - 52"
  have pos: "0 < x" using assms by (smt (verit) zero_less_power)
  then have x0: "x \<noteq> 0" by simp
  have "(2::real) powi 1024 \<le> \<bar>x\<bar>" using assms pos by (simp add: power_int_def)
  then have L: "1024 \<le> binaryExponent x"
    using binaryExponent_ge_iff [OF x0] by simp
  then have q: "q = binaryExponent x - 52" by (simp add: q_def)
  have "2 powi binaryExponent x \<le> \<bar>x\<bar>"
    using binaryExponent_ge_iff [OF x0, of "binaryExponent x"] by simp
  then have lo: "2 powi (q + 52) \<le> x" using pos q by simp
  have "(2::real) ^ 52 = 2 powi (q + 52) / 2 powi q"
    by (subst power_int_add) (simp_all add: power_int_def)
  also have "\<dots> \<le> x / 2 powi q"
    using lo by (simp add: divide_right_mono)
  finally have "(2::int) ^ 52 \<le> \<lfloor>x / 2 powi q\<rfloor>"
    by (simp add: le_floor_iff)
  then have "(2::int) ^ 52 \<le> roundHalfEven (x / 2 powi q)"
    using roundHalfEven_ge_floor order_trans by blast
  then have "(2::real) ^ 52 \<le> of_int (roundHalfEven (x / 2 powi q))"
    by (metis of_int_le_iff of_int_numeral of_int_power)
  then have "(2::real) ^ 52 * 2 powi q \<le> of_int (roundHalfEven (x / 2 powi q)) * 2 powi q"
    by (intro mult_right_mono) simp_all
  moreover have "(2::real) ^ 52 * 2 powi q = 2 powi binaryExponent x"
    unfolding q by (subst power_int_diff) (simp_all add: power_int_def)
  moreover have "(2::real) powi 1024 \<le> 2 powi binaryExponent x"
    using L by (intro power_int_increasing) simp_all
  ultimately have "(2::real) powi 1024 \<le> of_int (roundHalfEven (x / 2 powi q)) * 2 powi q"
    by linarith
  then have "(2::real) ^ 1024 \<le> of_int (roundHalfEven (x / 2 powi q)) * 2 powi q"
    by (simp add: power_int_def)
  then have "(2::real) ^ 1024 \<le> \<bar>of_int (roundHalfEven (x / 2 powi q)) * 2 powi q\<bar>"
    by linarith
  then show ?thesis
    using x0 pos by (simp add: roundBinary64_def Let_def q_def [symmetric])
qed

lemma roundBinary64_underflow:
  assumes "\<bar>x\<bar> < 2 powi (- 1075)"
  shows "roundBinary64 x = Fin 0"
proof (cases "x = 0")
  case True
  then show ?thesis by (simp add: roundBinary64_def)
next
  case False
  have "\<bar>x\<bar> < 2 powi (- 1022)"
    using assms by (rule less_le_trans) (simp add: power_int_increasing)
  then have "binaryExponent x < - 1022"
    using binaryExponent_less_iff [OF False] by simp
  then have q: "max (binaryExponent x) (- 1022) - 52 = - 1074" by simp
  have "\<bar>x / 2 powi (- 1074)\<bar> = \<bar>x\<bar> / 2 powi (- 1074)"
    by (simp add: abs_divide)
  also have "\<dots> < 2 powi (- 1075) / 2 powi (- 1074)"
    using assms by (simp add: divide_strict_right_mono)
  also have "\<dots> = 1 / 2"
    by (simp add: power_int_def field_simps)
  finally have "roundHalfEven (x / 2 powi (- 1074)) = 0"
    by (rule roundHalfEven_small)
  then show ?thesis
    using False by (simp add: roundBinary64_def Let_def q)
qed

lemma roundBinary64_nonneg:
  assumes "0 \<le> x"
  shows "roundBinary64 x = PosInf \<or> (\<exists>r\<ge>0. roundBinary64 x = Fin r)"
proof (cases "x = 0")
  case True
  then show ?thesis by (simp add: roundBinary64_def)
next
  case False
  define q where "q = max (binaryExponent x) (- 1022) - 52"
  have "0 \<le> x / 2 powi q" using assms by simp
  then have "0 \<le> roundHalfEven (x / 2 powi q)" by (rule roundHalfEven_nonneg)
  then have "0 \<le> of_int (roundHalfEven (x / 2 powi q)) * (2::real) powi q" by simp
  then show ?thesis
    using False assms by (simp add: roundBinary64_def Let_def q_def [symmetric])
qed

lemma roundBinary64_nonpos:
  assumes "x \<le> 0"
  shows "roundBinary64 x = NegInf \<or> (\<exists>r\<le>0. roundBinary64 x = Fin r)"
proof (cases "x = 0")
  case True
  then show ?thesis by (simp add: roundBinary64_def)
next
  case False
  define q where "q = max (binaryExponent x) (- 1022) - 52"
  have "x / 2 powi q \<le> 0" using assms by (simp add: divide_nonpos_pos)
  then have "roundHalfEven (x / 2 powi q) \<le> 0" by (rule roundHalfEven_nonpos)
  then have "of_int (roundHalfEven (x / 2 powi q)) * (2::real) powi q \<le> 0"
    by (simp add: mult_nonpos_nonneg)
  then show ?thesis
    using False assms by (simp add: roundBinary64_def Let_def q_def [symmetric])
qed



section \<open>Properties of the vertex generators\<close>







lemma roundBinary64_zero: "roundBinary64 0 = Fin 0"
  by (simp add: roundBinary64_def)



















section \<open>Properties of the default property bags\<close>

lemma keys_createDefaultLoop:
  "set (objectKeys (createDefaultLoop ss props)) = set (objectKeys props) \<union> set (map key ss)"
  by (induction ss arbitrary: props) (auto simp: objectKeys_def setProp_def dom_update)

lemma distinct_createDefaultLoop:
  "distinct (objectKeys props) \<Longrightarrow> distinct (objectKeys (createDefaultLoop ss props))"
  by (induction ss arbitrary: props) (simp_all add: objectKeys_def setProp_def distinct_update)

lemma map_of_createDefaultLoop:
  "map_of (createDefaultLoop ss props) =
     map_of props ++ map_of (rev (map (\<lambda>s. (key s, default s)) ss))"
  by (induction ss arbitrary: props) (simp_all add: setProp_def update_conv')

lemma getProp_createDefaultLoop:
  assumes "distinct (map key ss)" and "s \<in> set ss"
  shows "getProp (createDefaultLoop ss props) (key s) = default s"
proof -
  have "distinct (map fst (rev (map (\<lambda>s. (key s, default s)) ss)))"
    using assms(1) by (simp add: rev_map [symmetric] comp_def)
  moreover have "(key s, default s) \<in> set (rev (map (\<lambda>s. (key s, default s)) ss))"
    using assms(2) by auto
  ultimately have "map_of (rev (map (\<lambda>s. (key s, default s)) ss)) (key s) = Some (default s)"
    by (simp only: map_of_eq_Some_iff)
  then show ?thesis
    by (simp add: getProp_def map_of_createDefaultLoop map_add_find_right)
qed

lemma createDefaultLoop_schema:
  assumes "distinct (map key ss)"
  shows "set (objectKeys (createDefaultLoop ss [])) = set (map key ss)
       \<and> distinct (objectKeys (createDefaultLoop ss []))
       \<and> (\<forall>s\<in>set ss. getProp (createDefaultLoop ss []) (key s) = default s)"
proof -
  have k: "set (objectKeys (createDefaultLoop ss [])) = set (map key ss)"
    by (simp add: keys_createDefaultLoop) (simp add: objectKeys_def)
  have d: "distinct (objectKeys (createDefaultLoop ss []))"
    by (rule distinct_createDefaultLoop) (simp add: objectKeys_def)
  have g: "\<forall>s\<in>set ss. getProp (createDefaultLoop ss []) (key s) = default s"
    using assms by (simp add: getProp_createDefaultLoop)
  from k d g show ?thesis by blast
qed

lemma distinct_schema_keys:
  "distinct (map key COMMON_SHAPE_PROPERTIES)"
  "distinct (map key RECT_PROPERTIES)"
  "distinct (map key LINE_PROPERTIES)"
  "distinct (map key POLYGON_PROPERTIES)"
  "distinct (map key STAR_PROPERTIES)"
  by (simp_all add: COMMON_SHAPE_PROPERTIES_def RECT_PROPERTIES_def LINE_PROPERTIES_def
        POLYGON_PROPERTIES_def STAR_PROPERTIES_def)

text \<open>
  Claim C3. For each of the five layer types, \<^verbatim>\<open>createDefault()\<close> returns a property
  bag whose keys are exactly the keys of the type's schema list, each once, and every
  schema entry's key is mapped to that entry's default; so the rectangle's
  \<^verbatim>\<open>cornerRadius\<close> is 0, the star's \<^verbatim>\<open>innerRadius\<close> is 0.4 and the polygon's
  \<^verbatim>\<open>sides\<close> is 6.
\<close>

theorem createDefault_matches_schema:
  "(\<forall>t\<in>set layerTypes.
      set (objectKeys (createDefault t)) = set (map key (properties t))
      \<and> distinct (objectKeys (createDefault t))
      \<and> (\<forall>s\<in>set (properties t). getProp (createDefault t) (key s) = default s))
   \<and> getProp (createDefault rectLayerType) ''cornerRadius'' = VNum (Fin 0)
   \<and> getProp (createDefault starLayerType) ''innerRadius'' = VNum (Fin (4 / 10))
   \<and> getProp (createDefault polygonLayerType) ''sides'' = VNum (Fin 6)"
proof -
  have all: "\<forall>t\<in>set layerTypes.
      set (objectKeys (createDefault t)) = set (map key (properties t))
      \<and> distinct (objectKeys (createDefault t))
      \<and> (\<forall>s\<in>set (properties t). getProp (createDefault t) (key s) = default s)"
    unfolding layerTypes_def
    using distinct_schema_keys [THEN createDefaultLoop_schema]
    by (simp add: rectLayerType_def ellipseLayerType_def lineLayerType_def
          polygonLayerType_def starLayerType_def)
  have rect: "getProp (createDefault rectLayerType) ''cornerRadius'' = VNum (Fin 0)"
    by (simp add: rectLayerType_def RECT_PROPERTIES_def COMMON_SHAPE_PROPERTIES_def
          getProp_def setProp_def)
  have star: "getProp (createDefault starLayerType) ''innerRadius'' = VNum (Fin (4 / 10))"
    by (simp add: starLayerType_def STAR_PROPERTIES_def COMMON_SHAPE_PROPERTIES_def
          getProp_def setProp_def)
  have poly: "getProp (createDefault polygonLayerType) ''sides'' = VNum (Fin 6)"
    by (simp add: polygonLayerType_def POLYGON_PROPERTIES_def COMMON_SHAPE_PROPERTIES_def
          getProp_def setProp_def)
  from all rect star poly show ?thesis by blast
qed

text \<open>
  The star: its eight keys, and two of its defaults read off the schema.
\<close>

theorem createDefault_matches_schema_witness:
  "starLayerType \<in> set layerTypes
   \<and> set (objectKeys (createDefault starLayerType)) =
       {''fillColor'', ''fillEnabled'', ''strokeColor'', ''strokeWidth'', ''strokeEnabled'',
        ''points'', ''innerRadius'', ''rotation''}
   \<and> getProp (createDefault starLayerType) ''points'' = VNum (Fin 5)
   \<and> getProp (createDefault starLayerType) ''fillEnabled'' = VBool True"
proof -
  have m: "starLayerType \<in> set layerTypes" by (simp add: layerTypes_def)
  note t = conjunct1 [OF createDefault_matches_schema, THEN bspec, OF m]
  have p: "properties starLayerType = STAR_PROPERTIES" by (simp add: starLayerType_def)
  have ks: "set (objectKeys (createDefault starLayerType)) =
       {''fillColor'', ''fillEnabled'', ''strokeColor'', ''strokeWidth'', ''strokeEnabled'',
        ''points'', ''innerRadius'', ''rotation''}"
    using conjunct1 [OF t] unfolding p
    by (simp add: STAR_PROPERTIES_def COMMON_SHAPE_PROPERTIES_def)
  have g: "\<forall>s\<in>set STAR_PROPERTIES. getProp (createDefault starLayerType) (key s) = default s"
    using conjunct2 [OF conjunct2 [OF t]] unfolding p .
  have pts: "getProp (createDefault starLayerType) ''points'' = VNum (Fin 5)"
    using g by (simp add: STAR_PROPERTIES_def COMMON_SHAPE_PROPERTIES_def)
  have fe: "getProp (createDefault starLayerType) ''fillEnabled'' = VBool True"
    using g by (simp add: STAR_PROPERTIES_def COMMON_SHAPE_PROPERTIES_def)
  from m ks pts fe show ?thesis by blast
qed

section \<open>Properties of the canvas renders\<close>






lemma dash_filter_positive:
  "(\<not> isNaN n \<and> numLess (Fin 0) n) = positiveNumber n"
  by (cases n) (simp_all add: isNaN_def)

lemma parseDashes_positive:
  "parseDashes s = filter positiveNumber (map stringToNumber (splitOn CHR '','' s))"
  by (simp add: parseDashes_def dash_filter_positive)

lemma stringToNumber_empty: "stringToNumber [] = Fin 0"
proof -
  have "stringNumericValue [] = Fin 0" by code_simp
  then show ?thesis by (simp add: stringToNumber_def roundNumber_def roundBinary64_zero)
qed

lemma parseDashes_empty: "parseDashes [] = []"
  by (simp add: parseDashes_positive stringToNumber_empty)

lemma lineRender_string:
  assumes "getProp props ''dashPattern'' = VStr s"
  shows "lineRender props ctx bounds =
     (Inr (),
      ctx @ [Save, BeginPath,
             MoveTo (bounds_x bounds) (bounds_y bounds),
             LineTo (numAdd (bounds_x bounds) (bounds_width bounds))
                    (numAdd (bounds_y bounds) (bounds_height bounds)),
             SetStrokeStyle (nullish (getProp props ''strokeColor'') (VStr ''#ffffff'')),
             SetLineWidth (nullish (getProp props ''strokeWidth'') (VNum (Fin 2))),
             SetLineCap (nullish (getProp props ''lineCap'') (VStr ''round''))]
        @ (if parseDashes s = [] then [] else [SetLineDash (parseDashes s)])
        @ [Stroke, Restore])"
proof (cases "s = []")
  case True
  then show ?thesis
    using assms by (simp add: lineRender_def nullish_def parseDashes_empty)
next
  case False
  then show ?thesis
    using assms by (simp add: lineRender_def nullish_def Let_def)
qed

lemma roundBinary64_small_ints:
  "roundBinary64 2 = Fin 2" "roundBinary64 3 = Fin 3" "roundBinary64 4 = Fin 4"
  "roundBinary64 5 = Fin 5" "roundBinary64 (- 1) = Fin (- 1)" "roundBinary64 (- 2) = Fin (- 2)"
  "roundBinary64 200 = Fin 200" "roundBinary64 40 = Fin 40" "roundBinary64 60 = Fin 60"
  using roundBinary64_of_int [of 2] roundBinary64_of_int [of 3] roundBinary64_of_int [of 4]
    roundBinary64_of_int [of 5] roundBinary64_of_int [of "- 1"] roundBinary64_of_int [of "- 2"]
    roundBinary64_of_int [of 200] roundBinary64_of_int [of 40] roundBinary64_of_int [of 60]
  by simp_all

lemma roundBinary64_three_halves: "roundBinary64 (3 / 2) = Fin (3 / 2)"
  using roundBinary64_representable [of 3 "- 1"] by (simp add: power_int_def)

lemma dashes_5_3:
  "filter positiveNumber (map stringToNumber (splitOn CHR '','' ''5,3'')) = [Fin 5, Fin 3]"
proof -
  have sp: "splitOn CHR '','' ''5,3'' = [''5'', ''3'']" by code_simp
  have v: "stringNumericValue ''5'' = Fin 5" "stringNumericValue ''3'' = Fin 3" by code_simp+
  show ?thesis
    by (simp add: sp v stringToNumber_def roundNumber_def roundBinary64_small_ints)
qed

lemma dashes_0_m2_abc:
  "filter positiveNumber (map stringToNumber (splitOn CHR '','' ''0,-2,abc'')) = []"
proof -
  have sp: "splitOn CHR '','' ''0,-2,abc'' = [''0'', ''-2'', ''abc'']" by code_simp
  have v: "stringNumericValue ''0'' = Fin 0" "stringNumericValue ''-2'' = Fin (- 2)"
    "stringNumericValue ''abc'' = NaN" by code_simp+
  show ?thesis
    by (simp add: sp v stringToNumber_def roundNumber_def roundBinary64_small_ints
          roundBinary64_zero)
qed

lemma dashes_underflow:
  "filter positiveNumber (map stringToNumber (splitOn CHR '','' ''1e-324'')) = []"
proof -
  have sp: "splitOn CHR '','' ''1e-324'' = [''1e-324'']" by code_simp
  have v: "stringNumericValue ''1e-324'' = Fin (1 / 10 ^ 324)" by code_simp
  have "\<bar>1 / 10 ^ 324 :: real\<bar> < 2 powi (- 1075)"
    by (simp add: power_int_def field_simps)
  then have r: "roundBinary64 (1 / 10 ^ 324) = Fin 0" by (rule roundBinary64_underflow)
  have n: "stringToNumber ''1e-324'' = Fin 0"
    by (simp only: stringToNumber_def v roundNumber_def jsnum.case r)
  show ?thesis by (simp add: sp n)
qed

lemma dashes_overflow:
  "filter positiveNumber (map stringToNumber (splitOn CHR '','' ''1e309'')) = [PosInf]"
proof -
  have sp: "splitOn CHR '','' ''1e309'' = [''1e309'']" by code_simp
  have v: "stringNumericValue ''1e309'' = Fin (10 ^ 309)" by code_simp
  have "(2::real) ^ 1024 \<le> 10 ^ 309" by simp
  then have r: "roundBinary64 (10 ^ 309) = PosInf" by (rule roundBinary64_overflow)
  have n: "stringToNumber ''1e309'' = PosInf"
    by (simp only: stringToNumber_def v roundNumber_def jsnum.case r)
  show ?thesis by (simp add: sp n)
qed

text \<open>
  Claim C5. For every \<^verbatim>\<open>dashPattern\<close> string (of code units below 256) the line render
  splits it on commas, converts each piece to a number with \<^verbatim>\<open>Number\<close>, rounded to
  binary64, and keeps the pieces that are numbers greater than 0, in order; it calls
  \<^verbatim>\<open>setLineDash\<close> with them, once, right before \<^verbatim>\<open>stroke\<close>, when at least one is
  kept, and does not call it otherwise. \<^verbatim>\<open>"5,3"\<close> gives the dashes \<open>[5, 3]\<close>;
  \<^verbatim>\<open>"0,-2,abc"\<close> gives none, and the render has no \<^verbatim>\<open>setLineDash\<close>. A piece that
  rounds to 0, such as \<^verbatim>\<open>"1e-324"\<close>, is discarded, and one that rounds to
  \<^verbatim>\<open>Infinity\<close>, such as \<^verbatim>\<open>"1e309"\<close>, is kept as \<^verbatim>\<open>Infinity\<close>.
\<close>

theorem lineRender_dash_pattern:
  "(getProp props ''dashPattern'' = VStr s \<longrightarrow>
      lineRender props ctx bounds =
        (Inr (),
         ctx @ [Save, BeginPath,
                MoveTo (bounds_x bounds) (bounds_y bounds),
                LineTo (numAdd (bounds_x bounds) (bounds_width bounds))
                       (numAdd (bounds_y bounds) (bounds_height bounds)),
                SetStrokeStyle (nullish (getProp props ''strokeColor'') (VStr ''#ffffff'')),
                SetLineWidth (nullish (getProp props ''strokeWidth'') (VNum (Fin 2))),
                SetLineCap (nullish (getProp props ''lineCap'') (VStr ''round''))]
           @ (if filter positiveNumber (map stringToNumber (splitOn CHR '','' s)) = [] then []
              else [SetLineDash (filter positiveNumber (map stringToNumber (splitOn CHR '','' s)))])
           @ [Stroke, Restore]))
   \<and> filter positiveNumber (map stringToNumber (splitOn CHR '','' ''5,3'')) = [Fin 5, Fin 3]
   \<and> filter positiveNumber (map stringToNumber (splitOn CHR '','' ''0,-2,abc'')) = []
   \<and> filter positiveNumber (map stringToNumber (splitOn CHR '','' ''1e-324'')) = []
   \<and> filter positiveNumber (map stringToNumber (splitOn CHR '','' ''1e309'')) = [PosInf]
   \<and> lineRender (setProp (createDefault lineLayerType) ''dashPattern'' (VStr ''5,3'')) []
        (plainBounds 0 0 200 200) =
        (Inr (),
         [Save, BeginPath, MoveTo (Fin 0) (Fin 0), LineTo (Fin 200) (Fin 200),
          SetStrokeStyle (VStr ''#ffffff''), SetLineWidth (VNum (Fin 2)),
          SetLineCap (VStr ''round''), SetLineDash [Fin 5, Fin 3], Stroke, Restore])
   \<and> lineRender (setProp (createDefault lineLayerType) ''dashPattern'' (VStr ''0,-2,abc'')) []
        (plainBounds 0 0 200 200) =
        (Inr (),
         [Save, BeginPath, MoveTo (Fin 0) (Fin 0), LineTo (Fin 200) (Fin 200),
          SetStrokeStyle (VStr ''#ffffff''), SetLineWidth (VNum (Fin 2)),
          SetLineCap (VStr ''round''), Stroke, Restore])"
proof -
  have bag1: "setProp (createDefault lineLayerType) ''dashPattern'' (VStr ''5,3'') =
      [(''strokeColor'', VStr ''#ffffff''), (''strokeWidth'', VNum (Fin 2)),
       (''lineCap'', VStr ''round''), (''dashPattern'', VStr ''5,3'')]"
    by code_simp
  have bag2: "setProp (createDefault lineLayerType) ''dashPattern'' (VStr ''0,-2,abc'') =
      [(''strokeColor'', VStr ''#ffffff''), (''strokeWidth'', VNum (Fin 2)),
       (''lineCap'', VStr ''round''), (''dashPattern'', VStr ''0,-2,abc'')]"
    by code_simp
  have c: "lineRender (setProp (createDefault lineLayerType) ''dashPattern'' (VStr ''5,3'')) []
        (plainBounds 0 0 200 200) =
        (Inr (),
         [Save, BeginPath, MoveTo (Fin 0) (Fin 0), LineTo (Fin 200) (Fin 200),
          SetStrokeStyle (VStr ''#ffffff''), SetLineWidth (VNum (Fin 2)),
          SetLineCap (VStr ''round''), SetLineDash [Fin 5, Fin 3], Stroke, Restore])"
  proof -
    have g: "getProp [(''strokeColor'', VStr ''#ffffff''), (''strokeWidth'', VNum (Fin 2)),
       (''lineCap'', VStr ''round''), (''dashPattern'', VStr ''5,3'')] ''dashPattern'' = VStr ''5,3''"
      by (simp add: getProp_def)
    show ?thesis
      unfolding bag1
      using lineRender_string [OF g, of "[]" "plainBounds 0 0 200 200",
              unfolded parseDashes_positive dashes_5_3]
      by (simp add: getProp_def nullish_def plainBounds_def roundBinary64_small_ints)
  qed
  have d: "lineRender (setProp (createDefault lineLayerType) ''dashPattern'' (VStr ''0,-2,abc'')) []
        (plainBounds 0 0 200 200) =
        (Inr (),
         [Save, BeginPath, MoveTo (Fin 0) (Fin 0), LineTo (Fin 200) (Fin 200),
          SetStrokeStyle (VStr ''#ffffff''), SetLineWidth (VNum (Fin 2)),
          SetLineCap (VStr ''round''), Stroke, Restore])"
  proof -
    have g: "getProp [(''strokeColor'', VStr ''#ffffff''), (''strokeWidth'', VNum (Fin 2)),
       (''lineCap'', VStr ''round''), (''dashPattern'', VStr ''0,-2,abc'')] ''dashPattern'' =
         VStr ''0,-2,abc''"
      by (simp add: getProp_def)
    show ?thesis
      unfolding bag2
      using lineRender_string [OF g, of "[]" "plainBounds 0 0 200 200",
              unfolded parseDashes_positive dashes_0_m2_abc]
      by (simp add: getProp_def nullish_def plainBounds_def roundBinary64_small_ints)
  qed
  from lineRender_string [where s = s, unfolded parseDashes_positive]
    dashes_5_3 dashes_0_m2_abc dashes_underflow dashes_overflow c d
  show ?thesis by blast
qed

text \<open>
  A pattern with a blank, a fraction, a word and a negative number: two dashes are kept.
\<close>

theorem lineRender_dash_pattern_witness:
  "getProp [(''dashPattern'', VStr ''4, 1.5,x,-1'')] ''dashPattern'' = VStr ''4, 1.5,x,-1''
   \<and> lineRender [(''dashPattern'', VStr ''4, 1.5,x,-1'')] [] (plainBounds 10 20 30 40) =
        (Inr (),
         [Save, BeginPath, MoveTo (Fin 10) (Fin 20), LineTo (Fin 40) (Fin 60),
          SetStrokeStyle (VStr ''#ffffff''), SetLineWidth (VNum (Fin 2)),
          SetLineCap (VStr ''round''), SetLineDash [Fin 4, Fin (3 / 2)], Stroke, Restore])"
proof -
  have g: "getProp [(''dashPattern'', VStr ''4, 1.5,x,-1'')] ''dashPattern'' = VStr ''4, 1.5,x,-1''"
    by (simp add: getProp_def)
  have sp: "splitOn CHR '','' ''4, 1.5,x,-1'' = [''4'', '' 1.5'', ''x'', ''-1'']" by code_simp
  have v: "stringNumericValue ''4'' = Fin 4" "stringNumericValue '' 1.5'' = Fin (3 / 2)"
    "stringNumericValue ''x'' = NaN" "stringNumericValue ''-1'' = Fin (- 1)" by code_simp+
  have p: "filter positiveNumber (map stringToNumber (splitOn CHR '','' ''4, 1.5,x,-1'')) =
             [Fin 4, Fin (3 / 2)]"
    by (simp add: sp v stringToNumber_def roundNumber_def roundBinary64_small_ints
          roundBinary64_three_halves)
  have r: "lineRender [(''dashPattern'', VStr ''4, 1.5,x,-1'')] [] (plainBounds 10 20 30 40) =
        (Inr (),
         [Save, BeginPath, MoveTo (Fin 10) (Fin 20), LineTo (Fin 40) (Fin 60),
          SetStrokeStyle (VStr ''#ffffff''), SetLineWidth (VNum (Fin 2)),
          SetLineCap (VStr ''round''), SetLineDash [Fin 4, Fin (3 / 2)], Stroke, Restore])"
    using conjunct1 [OF lineRender_dash_pattern
            [of "[(''dashPattern'', VStr ''4, 1.5,x,-1'')]" "''4, 1.5,x,-1''" "[]" "plainBounds 10 20 30 40"]] g
    unfolding p
    by (simp add: getProp_def nullish_def plainBounds_def roundBinary64_small_ints)
  from g r show ?thesis by blast
qed

section \<open>Properties of the tool handlers\<close>

lemma getProp_setProp:
  "getProp (setProp ob k v) k' = (if k' = k then v else getProp ob k')"
  by (simp add: getProp_def setProp_def update_conv')

lemma addedLayers_append:
  "addedLayers (cs @ ds) = addedLayers cs @ addedLayers ds"
  by (induction cs rule: addedLayers.induct) simp_all

lemma lookupShapeType_Own:
  "lookupShapeType v = Own d \<longleftrightarrow>
     (v = VStr ''rect'' \<and> d = rectLayerType) \<or> (v = VStr ''ellipse'' \<and> d = ellipseLayerType)
     \<or> (v = VStr ''polygon'' \<and> d = polygonLayerType) \<or> (v = VStr ''star'' \<and> d = starLayerType)"
  by (cases v) (auto simp: lookupShapeType_def SHAPE_TYPES_def)

lemma lookupShapeType_known:
  "getProp input ''shape'' = VStr kind \<Longrightarrow> map_of SHAPE_TYPES kind = Some shapeDef \<Longrightarrow>
   lookupShapeType (getProp input ''shape'') = Own shapeDef"
  by (simp add: lookupShapeType_def)

lemma addShapeHandler_Own:
  assumes "lookupShapeType (getProp input ''shape'') = Own shapeDef"
  shows "addShapeHandler input context now36 random36 =
     (Inr (textResult [Chars ''Added '', Chars (displayName shapeDef),
                       Chars ('' layer '' @ quote), Chars (generateLayerId now36 random36),
                       Chars (quote @ ''.'')]),
      context\<lparr>calls := calls context @
        [LayersAdd
           \<lparr>layer_id = generateLayerId now36 random36, layer_type = typeId shapeDef,
            layer_name = displayName shapeDef, visible = True, locked = False,
            opacity = Fin 1, blendMode = ''normal'',
            transform =
              \<lparr>transform_x = nullish (getProp input ''x'') (VNum (Fin 100)),
               transform_y = nullish (getProp input ''y'') (VNum (Fin 100)),
               transform_width = nullish (getProp input ''width'') (VNum (Fin 200)),
               transform_height = nullish (getProp input ''height'') (VNum (Fin 200)),
               transform_rotation = VNum (Fin 0), transform_scaleX = VNum (Fin 1),
               transform_scaleY = VNum (Fin 1), transform_anchorX = VNum (Fin (1 / 2)),
               transform_anchorY = VNum (Fin (1 / 2))\<rparr>,
            layer_properties = mergeShapeProperties input (createDefault shapeDef)\<rparr>,
         EmitChange ''layer-added'']\<rparr>)"
  using assms by (simp add: addShapeHandler_def Let_def layersAdd_def emitChange_def)

lemma addShapeHandler_not_Own:
  assumes "\<forall>d. lookupShapeType (getProp input ''shape'') \<noteq> Own d"
  shows "snd (addShapeHandler input context now36 random36) = context"
    and "\<forall>res. fst (addShapeHandler input context now36 random36) = Inr res \<longrightarrow> isError res = Some True"
  using assms
  by (cases "lookupShapeType (getProp input ''shape'')";
      simp add: addShapeHandler_def Let_def errorResult_def)+

lemma getProp_copyIfDefined:
  "getProp (copyIfDefined input k target) k' =
     (if k' = k \<and> getProp input k \<noteq> VUndefined then getProp input k else getProp target k')"
  by (simp add: copyIfDefined_def getProp_setProp)

lemma getProp_merge:
  "getProp (mergeShapeProperties input defaults) k =
     (if k = ''cornerRadius'' \<and> getProp input ''cornerRadius'' \<noteq> VUndefined
        then getProp input ''cornerRadius''
      else if k = ''points'' \<and> getProp input ''points'' \<noteq> VUndefined
        then getProp input ''points''
      else if k = ''sides'' \<and> getProp input ''sides'' \<noteq> VUndefined
        then getProp input ''sides''
      else if k = ''strokeEnabled'' \<and> getProp input ''strokeWidth'' \<noteq> VUndefined
        then VBool (gtNumber (getProp input ''strokeWidth'') (Fin 0))
      else if k = ''strokeWidth'' \<and> getProp input ''strokeWidth'' \<noteq> VUndefined
        then getProp input ''strokeWidth''
      else if k = ''strokeColor'' \<and> getProp input ''strokeColor'' \<noteq> VUndefined
        then getProp input ''strokeColor''
      else if k = ''fillColor'' \<and> getProp input ''fillColor'' \<noteq> VUndefined
        then getProp input ''fillColor''
      else getProp defaults k)"
  by (simp add: mergeShapeProperties_def Let_def getProp_copyIfDefined getProp_setProp)


lemma merge_absent:
  "k \<noteq> ''strokeEnabled'' \<Longrightarrow> getProp input k = VUndefined \<Longrightarrow>
   getProp (mergeShapeProperties input defaults) k = getProp defaults k"
  unfolding getProp_merge by auto

lemma merge_present:
  "k \<in> {''fillColor'', ''strokeColor'', ''strokeWidth'', ''sides'', ''points'', ''cornerRadius''} \<Longrightarrow>
   getProp input k \<noteq> VUndefined \<Longrightarrow>
   getProp (mergeShapeProperties input defaults) k = getProp input k"
  unfolding getProp_merge by auto

lemma merge_unlisted:
  "k \<notin> {''fillColor'', ''strokeColor'', ''strokeWidth'', ''strokeEnabled'', ''sides'', ''points'',
         ''cornerRadius''} \<Longrightarrow>
   getProp (mergeShapeProperties input defaults) k = getProp defaults k"
  unfolding getProp_merge by simp

lemma merge_strokeEnabled:
  "getProp (mergeShapeProperties input defaults) ''strokeEnabled'' =
     (if getProp input ''strokeWidth'' = VUndefined then getProp defaults ''strokeEnabled''
      else VBool (gtNumber (getProp input ''strokeWidth'') (Fin 0)))"
  unfolding getProp_merge by simp

text \<open>
  Claim C8, as amended. For every \<^verbatim>\<open>add_shape\<close> input with a known shape kind the
  handler adds one layer of that kind and emits one change. The layer's property bag
  equals the kind's \<^verbatim>\<open>createDefault()\<close> bag on every key that is absent from the
  input, except \<^verbatim>\<open>strokeEnabled\<close>; only \<^verbatim>\<open>fillColor\<close>, \<^verbatim>\<open>strokeColor\<close>,
  \<^verbatim>\<open>strokeWidth\<close>, \<^verbatim>\<open>sides\<close>, \<^verbatim>\<open>points\<close> and \<^verbatim>\<open>cornerRadius\<close> are taken from
  the input when present, and \<^verbatim>\<open>strokeEnabled\<close> is set to \<^verbatim>\<open>strokeWidth > 0\<close>
  whenever \<^verbatim>\<open>strokeWidth\<close> is present. \<^verbatim>\<open>{shape: "star", points: 8}\<close> yields a
  \<^verbatim>\<open>shapes:star\<close> layer whose bag is the star's default bag with \<^verbatim>\<open>points\<close> 8.
\<close>

theorem addShape_merges_onto_defaults:
  "(getProp input ''shape'' = VStr kind \<and> map_of SHAPE_TYPES kind = Some shapeDef \<longrightarrow>
      (\<exists>layer res.
          addShapeHandler input context now36 random36 =
            (Inr res, context\<lparr>calls := calls context @ [LayersAdd layer, EmitChange ''layer-added'']\<rparr>)
        \<and> isError res = None
        \<and> layer_type layer = typeId shapeDef
        \<and> (\<forall>k. k \<noteq> ''strokeEnabled'' \<and> getProp input k = VUndefined \<longrightarrow>
               getProp (layer_properties layer) k = getProp (createDefault shapeDef) k)
        \<and> (\<forall>k. k \<notin> {''fillColor'', ''strokeColor'', ''strokeWidth'', ''strokeEnabled'',
                       ''sides'', ''points'', ''cornerRadius''} \<longrightarrow>
               getProp (layer_properties layer) k = getProp (createDefault shapeDef) k)
        \<and> (\<forall>k\<in>{''fillColor'', ''strokeColor'', ''strokeWidth'', ''sides'', ''points'',
                    ''cornerRadius''}.
               getProp input k \<noteq> VUndefined \<longrightarrow>
               getProp (layer_properties layer) k = getProp input k)
        \<and> getProp (layer_properties layer) ''strokeEnabled'' =
              (if getProp input ''strokeWidth'' = VUndefined
               then getProp (createDefault shapeDef) ''strokeEnabled''
               else VBool (gtNumber (getProp input ''strokeWidth'') (Fin 0)))))
   \<and> map (\<lambda>layer. (layer_type layer, layer_properties layer))
        (addedLayers (calls (snd (addShapeHandler
           [(''shape'', VStr ''star''), (''points'', VNum (Fin 8))]
           (createMockContext []) now36 random36)))) =
       [(''shapes:star'', setProp (createDefault starLayerType) ''points'' (VNum (Fin 8)))]"
proof -
  have gen: "\<exists>layer res.
          addShapeHandler input context now36 random36 =
            (Inr res, context\<lparr>calls := calls context @ [LayersAdd layer, EmitChange ''layer-added'']\<rparr>)
        \<and> isError res = None
        \<and> layer_type layer = typeId shapeDef
        \<and> (\<forall>k. k \<noteq> ''strokeEnabled'' \<and> getProp input k = VUndefined \<longrightarrow>
               getProp (layer_properties layer) k = getProp (createDefault shapeDef) k)
        \<and> (\<forall>k. k \<notin> {''fillColor'', ''strokeColor'', ''strokeWidth'', ''strokeEnabled'',
                       ''sides'', ''points'', ''cornerRadius''} \<longrightarrow>
               getProp (layer_properties layer) k = getProp (createDefault shapeDef) k)
        \<and> (\<forall>k\<in>{''fillColor'', ''strokeColor'', ''strokeWidth'', ''sides'', ''points'',
                    ''cornerRadius''}.
               getProp input k \<noteq> VUndefined \<longrightarrow>
               getProp (layer_properties layer) k = getProp input k)
        \<and> getProp (layer_properties layer) ''strokeEnabled'' =
              (if getProp input ''strokeWidth'' = VUndefined
               then getProp (createDefault shapeDef) ''strokeEnabled''
               else VBool (gtNumber (getProp input ''strokeWidth'') (Fin 0)))"
    if shape: "getProp input ''shape'' = VStr kind" and known: "map_of SHAPE_TYPES kind = Some shapeDef"
  proof -
    note run = addShapeHandler_Own [OF lookupShapeType_known [OF shape known],
                 of "context" now36 random36]
    show ?thesis
      apply (rule exI, rule exI)
      apply (rule conjI, rule run)
      apply (rule conjI, simp add: textResult_def)
      apply (rule conjI, simp)
      apply (rule conjI, simp add: merge_absent)
      apply (rule conjI, simp only: designLayer.simps, intro allI impI, erule merge_unlisted)
      apply (rule conjI, simp only: designLayer.simps, intro ballI impI, erule (1) merge_present)
      apply (simp only: designLayer.simps merge_strokeEnabled)
      done
  qed
  have ex: "map (\<lambda>layer. (layer_type layer, layer_properties layer))
        (addedLayers (calls (snd (addShapeHandler
           [(''shape'', VStr ''star''), (''points'', VNum (Fin 8))]
           (createMockContext []) now36 random36)))) =
       [(''shapes:star'', setProp (createDefault starLayerType) ''points'' (VNum (Fin 8)))]"
  proof -
    have l: "lookupShapeType (getProp [(''shape'', VStr ''star''), (''points'', VNum (Fin 8))] ''shape'')
               = Own starLayerType"
      by (simp add: lookupShapeType_def getProp_def SHAPE_TYPES_def)
    have m: "mergeShapeProperties [(''shape'', VStr ''star''), (''points'', VNum (Fin 8))]
               (createDefault starLayerType) =
             setProp (createDefault starLayerType) ''points'' (VNum (Fin 8))"
      by (simp add: mergeShapeProperties_def copyIfDefined_def getProp_def)
    show ?thesis
      unfolding addShapeHandler_Own [OF l] m
      by (simp add: createMockContext_def starLayerType_def)
  qed
  from gen ex show ?thesis by blast
qed

text \<open>
  The rectangle of the repository's test, \<^verbatim>\<open>{shape: "rect", x: 50, y: 50, fillColor: "#ff0000"}\<close>.
\<close>

theorem addShape_merges_onto_defaults_witness:
  "getProp [(''shape'', VStr ''rect''), (''x'', VNum (Fin 50)), (''y'', VNum (Fin 50)),
            (''fillColor'', VStr ''#ff0000'')] ''shape'' = VStr ''rect''
   \<and> map_of SHAPE_TYPES ''rect'' = Some rectLayerType
   \<and> map (\<lambda>layer. (layer_type layer,
                     getProp (layer_properties layer) ''fillColor'',
                     getProp (layer_properties layer) ''cornerRadius'',
                     getProp (layer_properties layer) ''strokeEnabled''))
        (addedLayers (calls (snd (addShapeHandler
           [(''shape'', VStr ''rect''), (''x'', VNum (Fin 50)), (''y'', VNum (Fin 50)),
            (''fillColor'', VStr ''#ff0000'')]
           (createMockContext []) ''lx'' ''r4nd0m'')))) =
       [(''shapes:rect'', VStr ''#ff0000'', VNum (Fin 0), VBool False)]"
proof -
  define inp where "inp = [(''shape'', VStr ''rect''), (''x'', VNum (Fin 50)),
                           (''y'', VNum (Fin 50)), (''fillColor'', VStr ''#ff0000'')]"
  define ctx where "ctx = createMockContext []"
  have s: "getProp inp ''shape'' = VStr ''rect''"
    by (simp add: getProp_def inp_def)
  have k: "map_of SHAPE_TYPES ''rect'' = Some rectLayerType"
    by (simp add: SHAPE_TYPES_def)
  have "\<exists>layer res.
          addShapeHandler inp ctx ''lx'' ''r4nd0m'' =
            (Inr res, ctx\<lparr>calls := calls ctx @ [LayersAdd layer, EmitChange ''layer-added'']\<rparr>)
        \<and> isError res = None
        \<and> layer_type layer = typeId rectLayerType
        \<and> (\<forall>k. k \<noteq> ''strokeEnabled'' \<and> getProp inp k = VUndefined \<longrightarrow>
               getProp (layer_properties layer) k = getProp (createDefault rectLayerType) k)
        \<and> (\<forall>k. k \<notin> {''fillColor'', ''strokeColor'', ''strokeWidth'', ''strokeEnabled'',
                       ''sides'', ''points'', ''cornerRadius''} \<longrightarrow>
               getProp (layer_properties layer) k = getProp (createDefault rectLayerType) k)
        \<and> (\<forall>k\<in>{''fillColor'', ''strokeColor'', ''strokeWidth'', ''sides'', ''points'',
                    ''cornerRadius''}.
               getProp inp k \<noteq> VUndefined \<longrightarrow>
               getProp (layer_properties layer) k = getProp inp k)
        \<and> getProp (layer_properties layer) ''strokeEnabled'' =
              (if getProp inp ''strokeWidth'' = VUndefined
               then getProp (createDefault rectLayerType) ''strokeEnabled''
               else VBool (gtNumber (getProp inp ''strokeWidth'') (Fin 0)))"
    by (rule mp [OF conjunct1 [OF addShape_merges_onto_defaults
         [of inp "''rect''" rectLayerType ctx "''lx''" "''r4nd0m''"]] conjI [OF s k]])
  then obtain layer res where
    run: "addShapeHandler inp ctx ''lx'' ''r4nd0m'' =
            (Inr res, ctx\<lparr>calls := calls ctx @ [LayersAdd layer, EmitChange ''layer-added'']\<rparr>)"
    and ty: "layer_type layer = typeId rectLayerType"
    and absent: "\<forall>k. k \<noteq> ''strokeEnabled'' \<and> getProp inp k = VUndefined \<longrightarrow>
               getProp (layer_properties layer) k = getProp (createDefault rectLayerType) k"
    and present: "\<forall>k\<in>{''fillColor'', ''strokeColor'', ''strokeWidth'', ''sides'', ''points'',
                    ''cornerRadius''}.
               getProp inp k \<noteq> VUndefined \<longrightarrow>
               getProp (layer_properties layer) k = getProp inp k"
    and se: "getProp (layer_properties layer) ''strokeEnabled'' =
              (if getProp inp ''strokeWidth'' = VUndefined
               then getProp (createDefault rectLayerType) ''strokeEnabled''
               else VBool (gtNumber (getProp inp ''strokeWidth'') (Fin 0)))"
    by (elim exE conjE)
  have t: "layer_type layer = ''shapes:rect''"
    using ty by (simp add: rectLayerType_def)
  have "getProp inp ''fillColor'' \<noteq> VUndefined \<longrightarrow>
        getProp (layer_properties layer) ''fillColor'' = getProp inp ''fillColor''"
    by (rule bspec [OF present]) simp
  then have f: "getProp (layer_properties layer) ''fillColor'' = VStr ''#ff0000''"
    by (simp add: getProp_def inp_def)
  have "''cornerRadius'' \<noteq> ''strokeEnabled'' \<and> getProp inp ''cornerRadius'' = VUndefined \<longrightarrow>
        getProp (layer_properties layer) ''cornerRadius'' =
        getProp (createDefault rectLayerType) ''cornerRadius''"
    by (rule spec [OF absent])
  then have c: "getProp (layer_properties layer) ''cornerRadius'' = VNum (Fin 0)"
    by (simp add: getProp_def inp_def rectLayerType_def RECT_PROPERTIES_def
          COMMON_SHAPE_PROPERTIES_def setProp_def)
  have e: "getProp (layer_properties layer) ''strokeEnabled'' = VBool False"
    using se
    by (simp add: getProp_def inp_def rectLayerType_def RECT_PROPERTIES_def
          COMMON_SHAPE_PROPERTIES_def setProp_def)
  have "map (\<lambda>layer. (layer_type layer,
                     getProp (layer_properties layer) ''fillColor'',
                     getProp (layer_properties layer) ''cornerRadius'',
                     getProp (layer_properties layer) ''strokeEnabled''))
        (addedLayers (calls (snd (addShapeHandler inp ctx ''lx'' ''r4nd0m'')))) =
       [(''shapes:rect'', VStr ''#ff0000'', VNum (Fin 0), VBool False)]"
    unfolding run using t f c e by (simp add: ctx_def createMockContext_def)
  with s k show ?thesis unfolding inp_def ctx_def by (intro conjI)
qed

text \<open>
  Claim C8 as stated fails for \<^verbatim>\<open>{shape: "rect", strokeWidth: 3}\<close>: the input has no
  \<^verbatim>\<open>strokeEnabled\<close>, the default is \<^verbatim>\<open>false\<close>, and the layer gets \<^verbatim>\<open>true\<close>.
\<close>

theorem addShape_strokeEnabled_counterexample:
  "getProp [(''shape'', VStr ''rect''), (''strokeWidth'', VNum (Fin 3))] ''strokeEnabled'' = VUndefined
   \<and> getProp (createDefault rectLayerType) ''strokeEnabled'' = VBool False
   \<and> map (\<lambda>layer. getProp (layer_properties layer) ''strokeEnabled'')
        (addedLayers (calls (snd (addShapeHandler
           [(''shape'', VStr ''rect''), (''strokeWidth'', VNum (Fin 3))]
           (createMockContext []) ''lx'' ''r4nd0m'')))) = [VBool True]"
  by code_simp

lemma addLineHandler_run:
  "addLineHandler input context now36 random36 =
     (Inr (textResult
        [Chars (''Added line layer '' @ quote), Chars (generateLayerId now36 random36),
         Chars (quote @ '' from (''), Subst (nullish (getProp input ''x1'') (VNum (Fin 0))),
         Chars '','', Subst (nullish (getProp input ''y1'') (VNum (Fin 0))),
         Chars '') to ('', Subst (nullish (getProp input ''x2'') (VNum (Fin 200))),
         Chars '','', Subst (nullish (getProp input ''y2'') (VNum (Fin 200))), Chars '').'']),
      context\<lparr>calls := calls context @
        [LayersAdd
           \<lparr>layer_id = generateLayerId now36 random36, layer_type = ''shapes:line'',
            layer_name = ''Line'', visible = True, locked = False, opacity = Fin 1,
            blendMode = ''normal'',
            transform =
              \<lparr>transform_x = nullish (getProp input ''x1'') (VNum (Fin 0)),
               transform_y = nullish (getProp input ''y1'') (VNum (Fin 0)),
               transform_width =
                 VNum (numSub (toNumber (nullish (getProp input ''x2'') (VNum (Fin 200))))
                              (toNumber (nullish (getProp input ''x1'') (VNum (Fin 0))))),
               transform_height =
                 VNum (numSub (toNumber (nullish (getProp input ''y2'') (VNum (Fin 200))))
                              (toNumber (nullish (getProp input ''y1'') (VNum (Fin 0))))),
               transform_rotation = VNum (Fin 0), transform_scaleX = VNum (Fin 1),
               transform_scaleY = VNum (Fin 1), transform_anchorX = VNum (Fin 0),
               transform_anchorY = VNum (Fin 0)\<rparr>,
            layer_properties =
              copyIfDefined input ''strokeWidth''
                (copyIfDefined input ''strokeColor'' (createDefault lineLayerType))\<rparr>,
         EmitChange ''layer-added'']\<rparr>)"
  by (simp add: addLineHandler_def Let_def layersAdd_def emitChange_def)

lemma roundBinary64_sign:
  "(x \<le> 0 \<longrightarrow> \<not> numLess (Fin 0) (roundBinary64 x))
   \<and> (0 \<le> x \<longrightarrow> \<not> numLess (roundBinary64 x) (Fin 0))"
  using roundBinary64_nonpos [of x] roundBinary64_nonneg [of x] by auto

text \<open>
  Claim C9, as amended. For every \<^verbatim>\<open>add_line\<close> input with finite endpoints
  \<open>(x1, y1)\<close> and \<open>(x2, y2)\<close> the handler adds one \<^verbatim>\<open>shapes:line\<close> layer whose
  transform has \<open>x = x1\<close>, \<open>y = y1\<close>, \<^verbatim>\<open>width = x2 - x1\<close> and \<^verbatim>\<open>height = y2 - y1\<close>,
  the differences rounded to binary64 (to an infinity when they overflow): the signed
  offsets from the first point to the second, never positive when the second point is not
  to the right of (below) the first, and never negative when it is not to the left of
  (above) it.
\<close>

theorem addLine_transform:
  "getProp input ''x1'' = VNum (Fin a) \<and> getProp input ''y1'' = VNum (Fin b)
   \<and> getProp input ''x2'' = VNum (Fin c) \<and> getProp input ''y2'' = VNum (Fin d) \<longrightarrow>
     (\<exists>layer res.
         addLineHandler input context now36 random36 =
           (Inr res, context\<lparr>calls := calls context @ [LayersAdd layer, EmitChange ''layer-added'']\<rparr>)
       \<and> isError res = None
       \<and> layer_type layer = ''shapes:line''
       \<and> transform_x (transform layer) = VNum (Fin a)
       \<and> transform_y (transform layer) = VNum (Fin b)
       \<and> transform_width (transform layer) = VNum (roundBinary64 (c - a))
       \<and> transform_height (transform layer) = VNum (roundBinary64 (d - b))
       \<and> (c \<le> a \<longrightarrow> \<not> numLess (Fin 0) (roundBinary64 (c - a)))
       \<and> (a \<le> c \<longrightarrow> \<not> numLess (roundBinary64 (c - a)) (Fin 0))
       \<and> (d \<le> b \<longrightarrow> \<not> numLess (Fin 0) (roundBinary64 (d - b)))
       \<and> (b \<le> d \<longrightarrow> \<not> numLess (roundBinary64 (d - b)) (Fin 0)))"
proof
  assume h: "getProp input ''x1'' = VNum (Fin a) \<and> getProp input ''y1'' = VNum (Fin b)
   \<and> getProp input ''x2'' = VNum (Fin c) \<and> getProp input ''y2'' = VNum (Fin d)"
  show "\<exists>layer res.
         addLineHandler input context now36 random36 =
           (Inr res, context\<lparr>calls := calls context @ [LayersAdd layer, EmitChange ''layer-added'']\<rparr>)
       \<and> isError res = None
       \<and> layer_type layer = ''shapes:line''
       \<and> transform_x (transform layer) = VNum (Fin a)
       \<and> transform_y (transform layer) = VNum (Fin b)
       \<and> transform_width (transform layer) = VNum (roundBinary64 (c - a))
       \<and> transform_height (transform layer) = VNum (roundBinary64 (d - b))
       \<and> (c \<le> a \<longrightarrow> \<not> numLess (Fin 0) (roundBinary64 (c - a)))
       \<and> (a \<le> c \<longrightarrow> \<not> numLess (roundBinary64 (c - a)) (Fin 0))
       \<and> (d \<le> b \<longrightarrow> \<not> numLess (Fin 0) (roundBinary64 (d - b)))
       \<and> (b \<le> d \<longrightarrow> \<not> numLess (roundBinary64 (d - b)) (Fin 0))"
    apply (rule exI, rule exI)
    apply (rule conjI, rule addLineHandler_run)
    using h roundBinary64_sign [of "c - a"] roundBinary64_sign [of "d - b"]
    apply (simp add: textResult_def nullish_def numSub_def)
    done
qed

lemma addShape_added_types:
  "map layer_type (addedLayers (calls (snd (addShapeHandler input context now36 random36)))) =
     map layer_type (addedLayers (calls context)) @
       (case getProp input ''shape'' of
          VStr kind \<Rightarrow> if kind \<in> {''rect'', ''ellipse'', ''polygon'', ''star''}
                        then [''shapes:'' @ kind] else []
        | _ \<Rightarrow> [])"
proof (cases "\<exists>d. lookupShapeType (getProp input ''shape'') = Own d")
  case True
  then obtain d where d: "lookupShapeType (getProp input ''shape'') = Own d" by blast
  from d [unfolded lookupShapeType_Own] show ?thesis
    unfolding addShapeHandler_Own [OF d]
    by (auto simp: addedLayers_append rectLayerType_def ellipseLayerType_def
          polygonLayerType_def starLayerType_def)
next
  case False
  then have no: "\<forall>d. lookupShapeType (getProp input ''shape'') \<noteq> Own d" by blast
  have "\<not> (\<exists>kind. getProp input ''shape'' = VStr kind
              \<and> kind \<in> {''rect'', ''ellipse'', ''polygon'', ''star''})"
    using no unfolding lookupShapeType_Own by blast
  then show ?thesis
    unfolding addShapeHandler_not_Own(1) [OF no]
    by (cases "getProp input ''shape''") simp_all
qed

lemma addShape_success_iff:
  "(\<exists>res. fst (addShapeHandler input context now36 random36) = Inr res \<and> isError res = None)
     \<longleftrightarrow> getProp input ''shape'' \<in> {VStr ''rect'', VStr ''ellipse'', VStr ''polygon'', VStr ''star''}"
proof (cases "\<exists>d. lookupShapeType (getProp input ''shape'') = Own d")
  case True
  then obtain d where d: "lookupShapeType (getProp input ''shape'') = Own d" by blast
  from d [unfolded lookupShapeType_Own] show ?thesis
    unfolding addShapeHandler_Own [OF d] by (auto simp: textResult_def)
next
  case False
  then have no: "\<forall>d. lookupShapeType (getProp input ''shape'') \<noteq> Own d" by blast
  have "getProp input ''shape'' \<notin> {VStr ''rect'', VStr ''ellipse'', VStr ''polygon'', VStr ''star''}"
    using no unfolding lookupShapeType_Own by blast
  then show ?thesis
    using addShapeHandler_not_Own(2) [OF no, of "context" now36 random36] by auto
qed

text \<open>
  Claim C10. For the shape value \<^verbatim>\<open>"line"\<close> the \<^verbatim>\<open>add_shape\<close> handler returns an
  error-flagged result and leaves the context as it was. It returns a result that is not
  flagged exactly for \<^verbatim>\<open>rect\<close>, \<^verbatim>\<open>ellipse\<close>, \<^verbatim>\<open>polygon\<close> and \<^verbatim>\<open>star\<close>, and
  then adds one layer of type \<^verbatim>\<open>shapes:<kind>\<close>; for any other value it adds none. A
  \<^verbatim>\<open>shapes:line\<close> layer is what \<^verbatim>\<open>add_line\<close> adds.
\<close>

theorem addShape_rejects_line:
  "(getProp input ''shape'' = VStr ''line'' \<longrightarrow>
      addShapeHandler input context now36 random36 =
        (Inr (errorResult [Chars (''Unknown shape type '' @ quote), Subst (VStr ''line''),
                           Chars (quote @ ''.'')]),
         context))
   \<and> ((\<exists>res. fst (addShapeHandler input context now36 random36) = Inr res \<and> isError res = None)
        \<longleftrightarrow> getProp input ''shape'' \<in>
               {VStr ''rect'', VStr ''ellipse'', VStr ''polygon'', VStr ''star''})
   \<and> map layer_type (addedLayers (calls (snd (addShapeHandler input context now36 random36)))) =
       map layer_type (addedLayers (calls context)) @
         (case getProp input ''shape'' of
            VStr kind \<Rightarrow> if kind \<in> {''rect'', ''ellipse'', ''polygon'', ''star''}
                          then [''shapes:'' @ kind] else []
          | _ \<Rightarrow> [])
   \<and> map layer_type (addedLayers (calls (snd (addLineHandler input context now36 random36)))) =
       map layer_type (addedLayers (calls context)) @ [''shapes:line'']"
proof -
  have line: "addShapeHandler input context now36 random36 =
        (Inr (errorResult [Chars (''Unknown shape type '' @ quote), Subst (VStr ''line''),
                           Chars (quote @ ''.'')]),
         context)"
    if "getProp input ''shape'' = VStr ''line''"
    using that
    by (simp add: addShapeHandler_def lookupShapeType_def SHAPE_TYPES_def objectPrototypeKeys_def)
  have addLine: "map layer_type (addedLayers (calls (snd (addLineHandler input context now36 random36)))) =
       map layer_type (addedLayers (calls context)) @ [''shapes:line'']"
    unfolding addLineHandler_run by (simp add: addedLayers_append)
  from line addShape_success_iff addShape_added_types addLine show ?thesis by blast
qed

text \<open>
  An input that asks for a line: the error-flagged result and no call on the context.
\<close>

theorem addShape_rejects_line_witness:
  "getProp [(''shape'', VStr ''line''), (''x'', VNum (Fin 5))] ''shape'' = VStr ''line''
   \<and> fst (addShapeHandler [(''shape'', VStr ''line''), (''x'', VNum (Fin 5))]
            (createMockContext []) ''lx'' ''r4nd0m'') =
       Inr (errorResult [Chars (''Unknown shape type '' @ quote), Subst (VStr ''line''),
                         Chars (quote @ ''.'')])
   \<and> isError (errorResult [Chars (''Unknown shape type '' @ quote), Subst (VStr ''line''),
                            Chars (quote @ ''.'')]) = Some True
   \<and> calls (snd (addShapeHandler [(''shape'', VStr ''line''), (''x'', VNum (Fin 5))]
            (createMockContext []) ''lx'' ''r4nd0m'')) = []"
proof -
  have g: "getProp [(''shape'', VStr ''line''), (''x'', VNum (Fin 5))] ''shape'' = VStr ''line''"
    by (simp add: getProp_def)
  have r: "addShapeHandler [(''shape'', VStr ''line''), (''x'', VNum (Fin 5))]
            (createMockContext []) ''lx'' ''r4nd0m'' =
        (Inr (errorResult [Chars (''Unknown shape type '' @ quote), Subst (VStr ''line''),
                           Chars (quote @ ''.'')]),
         createMockContext [])"
    by (rule mp [OF conjunct1 [OF addShape_rejects_line] g])
  have e: "isError (errorResult [Chars (''Unknown shape type '' @ quote), Subst (VStr ''line''),
                            Chars (quote @ ''.'')]) = Some True"
    by (simp add: errorResult_def)
  have c: "calls (createMockContext []) = []"
    by (simp add: createMockContext_def)
  from g e show ?thesis unfolding r using c by simp
qed

text \<open>
  The line of the repository's test, from \<open>(10, 20)\<close> to \<open>(300, 400)\<close>, and a line whose
  width overflows.
\<close>

theorem addLine_transform_witness:
  "getProp [(''x1'', VNum (Fin 10)), (''y1'', VNum (Fin 20)), (''x2'', VNum (Fin 300)),
            (''y2'', VNum (Fin 400)), (''strokeColor'', VStr ''#00ff00'')] ''x1'' = VNum (Fin 10)
   \<and> map (\<lambda>layer. (transform_x (transform layer), transform_y (transform layer),
                     transform_width (transform layer), transform_height (transform layer)))
        (addedLayers (calls (snd (addLineHandler
           [(''x1'', VNum (Fin 10)), (''y1'', VNum (Fin 20)), (''x2'', VNum (Fin 300)),
            (''y2'', VNum (Fin 400)), (''strokeColor'', VStr ''#00ff00'')]
           (createMockContext []) ''lx'' ''r4nd0m'')))) =
       [(VNum (Fin 10), VNum (Fin 20), VNum (Fin 290), VNum (Fin 380))]
   \<and> map (\<lambda>layer. (transform_width (transform layer), transform_height (transform layer)))
        (addedLayers (calls (snd (addLineHandler
           [(''x1'', VNum (Fin (- (2 ^ 1023)))), (''y1'', VNum (Fin 0)),
            (''x2'', VNum (Fin (2 ^ 1023))), (''y2'', VNum (Fin 0))]
           (createMockContext []) ''lx'' ''r4nd0m'')))) =
       [(VNum PosInf, VNum (Fin 0))]"
proof -
  define inp where "inp = [(''x1'', VNum (Fin 10)), (''y1'', VNum (Fin 20)),
     (''x2'', VNum (Fin 300)), (''y2'', VNum (Fin 400)), (''strokeColor'', VStr ''#00ff00'')]"
  define big where "big = [(''x1'', VNum (Fin (- (2 ^ 1023)))), (''y1'', VNum (Fin 0)),
            (''x2'', VNum (Fin (2 ^ 1023))), (''y2'', VNum (Fin 0))]"
  define ctx where "ctx = createMockContext []"
  have c0: "calls ctx = []" by (simp add: ctx_def createMockContext_def)
  have g: "getProp inp ''x1'' = VNum (Fin 10) \<and> getProp inp ''y1'' = VNum (Fin 20)
         \<and> getProp inp ''x2'' = VNum (Fin 300) \<and> getProp inp ''y2'' = VNum (Fin 400)"
    by (simp add: getProp_def inp_def)
  have gb: "getProp big ''x1'' = VNum (Fin (- (2 ^ 1023))) \<and> getProp big ''y1'' = VNum (Fin 0)
         \<and> getProp big ''x2'' = VNum (Fin (2 ^ 1023)) \<and> getProp big ''y2'' = VNum (Fin 0)"
    by (simp only: getProp_def big_def) simp
  have r290: "roundBinary64 (300 - 10) = Fin 290" and r380: "roundBinary64 (400 - 20) = Fin 380"
    using roundBinary64_of_int [of 290] roundBinary64_of_int [of 380] by simp_all
  have "(2::real) ^ 1024 \<le> 2 ^ 1023 - - (2 ^ 1023)" by simp
  then have rinf: "roundBinary64 (2 ^ 1023 - - (2 ^ 1023)) = PosInf"
    by (rule roundBinary64_overflow)
  have rz: "roundBinary64 (0 - 0) = Fin 0" by (simp add: roundBinary64_zero)
  from mp [OF addLine_transform g, of ctx "''lx''" "''r4nd0m''"]
  obtain layer res where
    run: "addLineHandler inp ctx ''lx'' ''r4nd0m'' =
           (Inr res, ctx\<lparr>calls := calls ctx @ [LayersAdd layer, EmitChange ''layer-added'']\<rparr>)"
    and tr: "transform_x (transform layer) = VNum (Fin 10)"
            "transform_y (transform layer) = VNum (Fin 20)"
            "transform_width (transform layer) = VNum (roundBinary64 (300 - 10))"
            "transform_height (transform layer) = VNum (roundBinary64 (400 - 20))"
    by (elim exE conjE)
  from mp [OF addLine_transform gb, of ctx "''lx''" "''r4nd0m''"]
  obtain layer' res' where
    run': "addLineHandler big ctx ''lx'' ''r4nd0m'' =
           (Inr res', ctx\<lparr>calls := calls ctx @ [LayersAdd layer', EmitChange ''layer-added'']\<rparr>)"
    and tr': "transform_width (transform layer') = VNum (roundBinary64 (2 ^ 1023 - - (2 ^ 1023)))"
             "transform_height (transform layer') = VNum (roundBinary64 (0 - 0))"
    by (elim exE conjE)
  have one: "map (\<lambda>layer. (transform_x (transform layer), transform_y (transform layer),
                     transform_width (transform layer), transform_height (transform layer)))
        (addedLayers (calls (snd (addLineHandler inp ctx ''lx'' ''r4nd0m'')))) =
       [(VNum (Fin 10), VNum (Fin 20), VNum (Fin 290), VNum (Fin 380))]"
    unfolding run by (simp add: tr [unfolded r290 r380] c0)
  have two: "map (\<lambda>layer. (transform_width (transform layer), transform_height (transform layer)))
        (addedLayers (calls (snd (addLineHandler big ctx ''lx'' ''r4nd0m'')))) =
       [(VNum PosInf, VNum (Fin 0))]"
    unfolding run' by (simp add: tr' [unfolded rinf rz] c0)
  from g one two show ?thesis unfolding inp_def big_def ctx_def by (intro conjI) simp_all
qed

text \<open>
  Claim C9 as stated fails for a line drawn towards the origin: from \<open>(300, 400)\<close> to
  \<open>(10, 20)\<close> the width is \<open>-290\<close> and the height \<open>-380\<close>, not non-negative extents.
\<close>

theorem addLine_negative_extent_counterexample:
  "map (\<lambda>layer. (transform_x (transform layer), transform_y (transform layer),
                  transform_width (transform layer), transform_height (transform layer)))
     (addedLayers (calls (snd (addLineHandler
        [(''x1'', VNum (Fin 300)), (''y1'', VNum (Fin 400)), (''x2'', VNum (Fin 10)),
         (''y2'', VNum (Fin 20))]
        (createMockContext []) ''lx'' ''r4nd0m'')))) =
     [(VNum (Fin 300), VNum (Fin 400), VNum (Fin (- 290)), VNum (Fin (- 380)))]"
proof -
  have r: "roundBinary64 (- 290) = Fin (- 290)" "roundBinary64 (- 380) = Fin (- 380)"
    using roundBinary64_of_int [of "- 290"] roundBinary64_of_int [of "- 380"] by simp_all
  show ?thesis
    unfolding addLineHandler_run
    by (simp add: createMockContext_def getProp_def nullish_def numSub_def r)
qed

text \<open>
  Claim C6 says that every shape kind outside the registered set gives an error-flagged
  result. The handler at \<^verbatim>\<open>{shape: "constructor"}\<close>: the lookup finds the property
  inherited from \<^verbatim>\<open>Object.prototype\<close>, the guard is passed and the handler throws,
  where \<^verbatim>\<open>{shape: "hexaflop"}\<close> returns the error-flagged result. Neither touches the
  context.
\<close>

theorem addShape_inherited_key_throws:
  "addShapeHandler [(''shape'', VStr ''constructor'')] (createMockContext []) ''lx'' ''r4nd0m'' =
     (Inl TypeError, createMockContext [])
   \<and> addShapeHandler [(''shape'', VStr ''hexaflop'')] (createMockContext []) ''lx'' ''r4nd0m'' =
     (Inr (errorResult [Chars (''Unknown shape type '' @ quote), Subst (VStr ''hexaflop''),
                        Chars (quote @ ''.'')]),
      createMockContext [])"
  by (simp add: addShapeHandler_def lookupShapeType_def getProp_def SHAPE_TYPES_def
        objectPrototypeKeys_def)

lemma lookupShapeType_Inherited:
  "lookupShapeType v = Inherited \<longleftrightarrow> (\<exists>s\<in>set objectPrototypeKeys. v = VStr s)"
  by (cases v) (auto simp: lookupShapeType_def SHAPE_TYPES_def objectPrototypeKeys_def)

text \<open>
  On every \<^verbatim>\<open>add_shape\<close> input, a shape value outside the four kinds leaves the
  context as it was; the handler throws exactly when the value names a property of
  \<^verbatim>\<open>Object.prototype\<close>, and every result it returns otherwise is error-flagged.
\<close>

theorem addShape_unknown_kind_leaves_context:
  "getProp input ''shape'' \<notin> {VStr ''rect'', VStr ''ellipse'', VStr ''polygon'', VStr ''star''} \<longrightarrow>
     snd (addShapeHandler input context now36 random36) = context
   \<and> (fst (addShapeHandler input context now36 random36) = Inl TypeError
        \<longleftrightarrow> (\<exists>s\<in>set objectPrototypeKeys. getProp input ''shape'' = VStr s))
   \<and> (\<forall>res. fst (addShapeHandler input context now36 random36) = Inr res \<longrightarrow>
               isError res = Some True)"
proof
  assume out: "getProp input ''shape'' \<notin>
                 {VStr ''rect'', VStr ''ellipse'', VStr ''polygon'', VStr ''star''}"
  then have no: "\<forall>d. lookupShapeType (getProp input ''shape'') \<noteq> Own d"
    unfolding lookupShapeType_Own by blast
  have thrown: "fst (addShapeHandler input context now36 random36) = Inl TypeError
        \<longleftrightarrow> lookupShapeType (getProp input ''shape'') = Inherited"
    using no
    by (cases "lookupShapeType (getProp input ''shape'')")
       (simp_all add: addShapeHandler_def)
  from addShapeHandler_not_Own [OF no, of "context" now36 random36] thrown
  show "snd (addShapeHandler input context now36 random36) = context
   \<and> (fst (addShapeHandler input context now36 random36) = Inl TypeError
        \<longleftrightarrow> (\<exists>s\<in>set objectPrototypeKeys. getProp input ''shape'' = VStr s))
   \<and> (\<forall>res. fst (addShapeHandler input context now36 random36) = Inr res \<longrightarrow>
               isError res = Some True)"
    unfolding lookupShapeType_Inherited by blast
qed

text \<open>
  The shape \<^verbatim>\<open>"toString"\<close>: no call on the context, and a TypeError.
\<close>

theorem addShape_unknown_kind_leaves_context_witness:
  "getProp [(''shape'', VStr ''toString'')] ''shape'' \<notin>
     {VStr ''rect'', VStr ''ellipse'', VStr ''polygon'', VStr ''star''}
   \<and> calls (snd (addShapeHandler [(''shape'', VStr ''toString'')] (createMockContext [])
               ''lx'' ''r4nd0m'')) = []
   \<and> fst (addShapeHandler [(''shape'', VStr ''toString'')] (createMockContext [])
               ''lx'' ''r4nd0m'') = Inl TypeError"
proof -
  define inp where "inp = [(''shape'', VStr ''toString'')]"
  have g: "getProp inp ''shape'' = VStr ''toString''"
    by (simp add: getProp_def inp_def)
  have out: "getProp inp ''shape'' \<notin>
     {VStr ''rect'', VStr ''ellipse'', VStr ''polygon'', VStr ''star''}"
    unfolding g by simp
  have k: "\<exists>s\<in>set objectPrototypeKeys. getProp inp ''shape'' = VStr s"
    unfolding g by (simp add: objectPrototypeKeys_def)
  note t = mp [OF addShape_unknown_kind_leaves_context
                 [of inp "createMockContext []" "''lx''" "''r4nd0m''"] out]
  have s: "snd (addShapeHandler inp (createMockContext []) ''lx'' ''r4nd0m'') = createMockContext []"
    using t by (rule conjunct1)
  have f: "fst (addShapeHandler inp (createMockContext []) ''lx'' ''r4nd0m'') = Inl TypeError"
    using conjunct1 [OF conjunct2 [OF t]] k by (rule iffD2)
  have c: "calls (snd (addShapeHandler inp (createMockContext []) ''lx'' ''r4nd0m'')) = []"
    unfolding s by (simp add: createMockContext_def)
  from out c f show ?thesis unfolding inp_def by (intro conjI)
qed

text \<open>
  Claim C7 says that both property-update handlers reject an empty update. On a polygon
  layer and an input with no field but \<^verbatim>\<open>layerId\<close>, \<^verbatim>\<open>set_polygon\<close> calls
  \<^verbatim>\<open>updateProperties\<close> with the empty object, emits a change and returns a result that
  is not flagged, where \<^verbatim>\<open>set_shape_style\<close> returns the error and calls nothing.
\<close>

theorem setPolygon_empty_update_succeeds:
  "fst (setPolygonHandler [(''layerId'', VStr ''layer-1'')]
          (createMockContext [createMockLayer ''shapes:polygon''])) =
     Inr (textResult [Chars (''Updated polygon layer '' @ quote), Subst (VStr ''layer-1''),
                      Chars (quote @ ''.'')])
   \<and> calls (snd (setPolygonHandler [(''layerId'', VStr ''layer-1'')]
          (createMockContext [createMockLayer ''shapes:polygon'']))) =
     [LayersUpdateProperties (VStr ''layer-1'') [], EmitChange ''layer-updated'']
   \<and> fst (setShapeStyleHandler [(''layerId'', VStr ''layer-1'')]
          (createMockContext [createMockLayer ''shapes:polygon''])) =
     Inr (errorResult [Chars ''No style properties provided.''])
   \<and> calls (snd (setShapeStyleHandler [(''layerId'', VStr ''layer-1'')]
          (createMockContext [createMockLayer ''shapes:polygon'']))) = []"
  by (simp add: setPolygonHandler_def setShapeStyleHandler_def createMockContext_def
        createMockLayer_def getProp_def copyIfDefined_def Let_def startsWith_def objectKeys_def
        layersUpdateProperties_def emitChange_def)

lemma styleUpdatesLoop_none:
  "\<forall>k\<in>set ks. getProp input k = VUndefined \<Longrightarrow> styleUpdatesLoop ks input updates = updates"
  by (induction ks arbitrary: updates) (simp_all add: copyIfDefined_def)

lemma styleUpdatesLoop_nonempty:
  "updates \<noteq> [] \<Longrightarrow> styleUpdatesLoop ks input updates \<noteq> []"
  by (induction ks arbitrary: updates) (simp_all add: copyIfDefined_def setProp_def)

lemma styleUpdatesLoop_some:
  "\<exists>k\<in>set ks. getProp input k \<noteq> VUndefined \<Longrightarrow> styleUpdatesLoop ks input updates \<noteq> []"
proof (induction ks arbitrary: updates)
  case Nil
  then show ?case by simp
next
  case (Cons k ks)
  show ?case
  proof (cases "getProp input k = VUndefined")
    case True
    with Cons show ?thesis by (simp add: copyIfDefined_def)
  next
    case False
    then show ?thesis
      by (simp add: copyIfDefined_def styleUpdatesLoop_nonempty setProp_def)
  qed
qed

text \<open>
  On a shape layer, \<^verbatim>\<open>set_shape_style\<close> returns its empty-update error, with the
  context as it was, exactly when the input has none of the five style fields.
\<close>

theorem setShapeStyle_empty_update_rejected:
  "layers_get context (getProp input ''layerId'') = Some layer
   \<and> startsWith (layer_type layer) ''shapes:'' \<longrightarrow>
     ((\<forall>k\<in>{''fillColor'', ''fillEnabled'', ''strokeColor'', ''strokeWidth'', ''strokeEnabled''}.
          getProp input k = VUndefined)
      \<longleftrightarrow> setShapeStyleHandler input context =
            (Inr (errorResult [Chars ''No style properties provided.'']), context))"
proof
  assume h: "layers_get context (getProp input ''layerId'') = Some layer
   \<and> startsWith (layer_type layer) ''shapes:''"
  let ?keys = "[''fillColor'', ''fillEnabled'', ''strokeColor'', ''strokeWidth'', ''strokeEnabled'']"
  show "(\<forall>k\<in>{''fillColor'', ''fillEnabled'', ''strokeColor'', ''strokeWidth'', ''strokeEnabled''}.
          getProp input k = VUndefined)
      \<longleftrightarrow> setShapeStyleHandler input context =
            (Inr (errorResult [Chars ''No style properties provided.'']), context)"
  proof (cases "\<forall>k\<in>set ?keys. getProp input k = VUndefined")
    case True
    from styleUpdatesLoop_none [OF True, of "[]"] h True show ?thesis
      by (simp add: setShapeStyleHandler_def Let_def objectKeys_def)
  next
    case False
    then have "styleUpdatesLoop ?keys input [] \<noteq> []"
      by (intro styleUpdatesLoop_some) blast
    with h False show ?thesis
      by (simp add: setShapeStyleHandler_def Let_def objectKeys_def errorResult_def textResult_def)
  qed
qed

text \<open>
  The mock rectangle layer and an input with no field but \<^verbatim>\<open>layerId\<close>.
\<close>

theorem setShapeStyle_empty_update_rejected_witness:
  "layers_get (createMockContext [createMockLayer ''shapes:rect''])
     (getProp [(''layerId'', VStr ''layer-1'')] ''layerId'') = Some (createMockLayer ''shapes:rect'')
   \<and> startsWith (layer_type (createMockLayer ''shapes:rect'')) ''shapes:''
   \<and> fst (setShapeStyleHandler [(''layerId'', VStr ''layer-1'')]
            (createMockContext [createMockLayer ''shapes:rect''])) =
       Inr (errorResult [Chars ''No style properties provided.''])
   \<and> calls (snd (setShapeStyleHandler [(''layerId'', VStr ''layer-1'')]
            (createMockContext [createMockLayer ''shapes:rect'']))) = []"
proof -
  define inp where "inp = [(''layerId'', VStr ''layer-1'')]"
  define ctx where "ctx = createMockContext [createMockLayer ''shapes:rect'']"
  have g: "layers_get ctx (getProp inp ''layerId'') = Some (createMockLayer ''shapes:rect'')"
    by (simp add: ctx_def inp_def createMockContext_def getProp_def createMockLayer_def)
  have p: "startsWith (layer_type (createMockLayer ''shapes:rect'')) ''shapes:''"
    by (simp add: startsWith_def createMockLayer_def)
  have e: "\<forall>k\<in>{''fillColor'', ''fillEnabled'', ''strokeColor'', ''strokeWidth'', ''strokeEnabled''}.
          getProp inp k = VUndefined"
    by (simp add: inp_def getProp_def)
  have r: "setShapeStyleHandler inp ctx =
            (Inr (errorResult [Chars ''No style properties provided.'']), ctx)"
    using mp [OF setShapeStyle_empty_update_rejected conjI [OF g p]] e by (rule iffD1)
  have c: "calls ctx = []" by (simp add: ctx_def createMockContext_def)
  from g p show ?thesis unfolding r inp_def [symmetric] ctx_def [symmetric] using c by simp
qed

end
